theory Spec2Isabelle
  imports Complex_Main
begin

section \<open>Data model of the fingering planner\<close>

text \<open>
  The planner of \<^verbatim>\<open>src/core/FingeringPlanner.ts\<close> imports its types from \<^verbatim>\<open>@/types\<close>.
  Pitches, measure numbers and segment bounds are integer-valued JavaScript numbers and
  are modelled as \<open>int\<close>. Costs are JavaScript numbers as well; they are modelled as exact
  rationals, with a separate value for \<^verbatim>\<open>Infinity\<close>. At the default difficulty level
  (intermediate) every cost is an integer, so the model is exact there; at the other two
  levels the code multiplies by 1.3, 1.1 or 0.9 in double precision, which the model
  idealises to multiplication by 13/10, 11/10 and 9/10.
\<close>

text \<open>Modelled from the spec: the type \<^verbatim>\<open>Hand\<close> of \<^verbatim>\<open>@/types\<close>, the two hands RH and LH.\<close>
datatype Hand = RH | LH

text \<open>Modelled from the spec: the enumeration \<^verbatim>\<open>PatternType\<close> of \<^verbatim>\<open>@/types\<close>; the planner
  itself only ever tests for SCALE, POLYPHONIC and ORNAMENTED and produces UNKNOWN.\<close>
datatype PatternType = SCALE | POLYPHONIC | ORNAMENTED | UNKNOWN | OtherPattern string

text \<open>Modelled from the spec: the fields of \<^verbatim>\<open>Note\<close> that the planner reads.\<close>
record Note =
  pitch :: int
  hand :: Hand
  measureNumber :: int

text \<open>Modelled from the spec: the type \<^verbatim>\<open>PatternSegment\<close> of \<^verbatim>\<open>@/types\<close>.\<close>
record PatternSegment =
  startIndex :: int
  endIndex :: int
  patternType :: PatternType

text \<open>The object literal built by \<^verbatim>\<open>analyzeHandPositions\<close>.\<close>
record HandPosition =
  anchorPitch :: int
  inPosition :: bool
  isScale :: bool

text \<open>Modelled from the spec: \<^verbatim>\<open>CostResult\<close> of \<^verbatim>\<open>@/types\<close>, a cost and its reason labels.\<close>
record CostResult =
  cost :: rat
  reasons :: "string list"

text \<open>The setting \<^verbatim>\<open>difficultyLevel\<close> of the planner object; it only changes through
  \<^verbatim>\<open>setDifficultyLevel\<close>, so every function that reads it takes it as a parameter.\<close>
datatype Difficulty = Beginner | Intermediate | Advanced

text \<open>A JavaScript number that is either finite or \<^verbatim>\<open>Infinity\<close>: the running minima of
  the optimiser start at \<^verbatim>\<open>Infinity\<close>.\<close>
datatype Cost = Fin rat | Infinity

fun costLess :: "rat \<Rightarrow> Cost \<Rightarrow> bool" where
  "costLess x (Fin y) = (x < y)"
| "costLess x Infinity = True"

fun costPlus :: "Cost \<Rightarrow> Cost \<Rightarrow> Cost" where
  "costPlus (Fin x) (Fin y) = Fin (x + y)"
| "costPlus _ _ = Infinity"

text \<open>A cell of the DP table: the value stored in \<^verbatim>\<open>dp[i]\<close> under a finger. The parent
  string \<^verbatim>\<open>`${i - 1}-${fromFinger}`\<close> is kept as the pair it encodes; \<^verbatim>\<open>null\<close> is \<open>None\<close>.\<close>
record DpCell =
  cellCost :: rat
  parent :: "(nat \<times> int) option"
  cellReasons :: "string list"

text \<open>A row \<^verbatim>\<open>dp[i]\<close> is a JavaScript \<^verbatim>\<open>Map\<close>, iterated in insertion order: an
  association list from fingers to cells, in the order the cells were set.\<close>
type_synonym DpRow = "(int \<times> DpCell) list"

text \<open>Modelled from the spec: \<^verbatim>\<open>FingeringState\<close> of \<^verbatim>\<open>@/types\<close>, the entries of a path, with
  the fields \<^verbatim>\<open>backtrack\<close> writes (\<^verbatim>\<open>parent\<close> is always \<^verbatim>\<open>null\<close> there).\<close>
record FingeringState =
  noteIndex :: nat
  finger :: int
  stateHand :: Hand
  handPosition :: int
  stateCost :: rat
  stateReasons :: "string list"

text \<open>Modelled from the spec: \<^verbatim>\<open>FingeringSolution\<close> of \<^verbatim>\<open>@/types\<close>.\<close>
record FingeringSolution =
  fingering :: "int list"
  totalCost :: Cost
  path :: "FingeringState list"
  explanations :: "string list"

text \<open>The only failure the planner's code could raise: reading a property of
  \<^verbatim>\<open>undefined\<close>, which \<^verbatim>\<open>dpOptimization\<close> would do on an empty note array.\<close>
datatype error = TypeError

section \<open>Cost model\<close>

definition fingers :: "int list" where
  "fingers = [1, 2, 3, 4, 5]"

text \<open>The table \<^verbatim>\<open>naturalSpans\<close>, keyed by the pair that the string \<^verbatim>\<open>`${min}-${max}`\<close> encodes.\<close>
definition naturalSpans :: "((int \<times> int) \<times> int) list" where
  "naturalSpans =
    [((1, 2), 2), ((2, 3), 2), ((3, 4), 1), ((4, 5), 2),
     ((1, 3), 4), ((2, 4), 3), ((3, 5), 3),
     ((1, 4), 5), ((2, 5), 5),
     ((1, 5), 8)]"

text \<open>The table \<^verbatim>\<open>transitionWeights\<close>, keyed by the pair that \<^verbatim>\<open>`${from}->${to}`\<close> encodes.\<close>
definition transitionWeights :: "((int \<times> int) \<times> int) list" where
  "transitionWeights =
    [((1, 2), 900), ((2, 1), 936), ((2, 3), 405), ((3, 2), 528),
     ((3, 4), 420), ((4, 3), 409), ((4, 5), 590), ((5, 4), 561),
     ((1, 3), 451), ((3, 1), 489), ((1, 4), 301), ((4, 1), 286),
     ((1, 5), 356), ((5, 1), 286), ((2, 4), 150), ((4, 2), 149),
     ((2, 5), 334), ((5, 2), 248), ((3, 5), 271), ((5, 3), 448)]"

text \<open>\<^verbatim>\<open>this.naturalSpans[key] || 0\<close>: a missing key and the value 0 both give 0.\<close>
definition getNaturalSpan :: "int \<Rightarrow> int \<Rightarrow> int" where
  "getNaturalSpan finger1 finger2 =
    (case map_of naturalSpans (min finger1 finger2, max finger1 finger2) of
       None \<Rightarrow> 0
     | Some s \<Rightarrow> s)"

text \<open>JavaScript's \<^verbatim>\<open>%\<close> takes the sign of the dividend.\<close>
definition jsRem :: "int \<Rightarrow> int \<Rightarrow> int" where
  "jsRem a b = sgn a * (\<bar>a\<bar> mod \<bar>b\<bar>)"

definition isBlackKey :: "int \<Rightarrow> bool" where
  "isBlackKey p = (let pitchClass = jsRem p 12 in pitchClass \<in> set [1, 3, 6, 8, 10])"

definition applyDifficultyAdjustment :: "Difficulty \<Rightarrow> rat \<Rightarrow> PatternType \<Rightarrow> rat" where
  "applyDifficultyAdjustment level c patternContext =
    (case level of
       Beginner \<Rightarrow>
         (if patternContext = POLYPHONIC \<or> patternContext = ORNAMENTED then c * (13 / 10)
          else c * (11 / 10))
     | Advanced \<Rightarrow> c * (9 / 10)
     | Intermediate \<Rightarrow> c)"

text \<open>The five-finger ladder from the offset to the anchor pitch. The source writes this
  chain of comparisons twice, in \<^verbatim>\<open>computeInitialCost\<close> and in \<^verbatim>\<open>computeTransitionCost\<close>.\<close>
definition expectedFinger :: "Hand \<Rightarrow> int \<Rightarrow> int" where
  "expectedFinger h offset =
    (if h = RH then
       (if offset \<le> 0 then 1 else if offset \<le> 2 then 2 else if offset \<le> 4 then 3
        else if offset \<le> 5 then 4 else 5)
     else
       (if offset \<ge> 0 then 1 else if offset \<ge> - 2 then 2 else if offset \<ge> - 4 then 3
        else if offset \<ge> - 5 then 4 else 5))"

text \<open>\<^verbatim>\<open>cost += d; reasons.push(label)\<close> and \<^verbatim>\<open>cost += d\<close> on the accumulating result.\<close>
definition addReason :: "rat \<Rightarrow> string \<Rightarrow> CostResult \<Rightarrow> CostResult" where
  "addReason d label r = \<lparr>cost = cost r + d, reasons = reasons r @ [label]\<rparr>"

definition addCost :: "rat \<Rightarrow> CostResult \<Rightarrow> CostResult" where
  "addCost d r = \<lparr>cost = cost r + d, reasons = reasons r\<rparr>"

definition noCost :: CostResult where
  "noCost = \<lparr>cost = 0, reasons = []\<rparr>"

text \<open>Decimal rendering of a natural number, as a template string renders it.\<close>
fun showNat :: "nat \<Rightarrow> string" where
  "showNat n =
    (if n < 10 then [char_of (48 + n)]
     else showNat (n div 10) @ [char_of (48 + n mod 10)])"

declare showNat.simps [simp del]

definition computeInitialCost :: "int \<Rightarrow> Note \<Rightarrow> Hand \<Rightarrow> HandPosition \<Rightarrow> CostResult" where
  "computeInitialCost fingr note h pos =
    (let offset = pitch note - anchorPitch pos;
         expected = expectedFinger h offset;
         r1 = (if fingr = expected then addReason (- 30) ''Matches hand position'' noCost
               else (let diff = \<bar>fingr - expected\<bar>
                     in addReason (of_int (diff * 15))
                          (showNat (nat diff) @ '' fingers from expected'') noCost))
     in if isBlackKey (pitch note) then
          (if fingr = 1 \<or> fingr = 5 then addReason 20 ''Short finger on black key'' r1
           else addReason (- 5) ''Long finger on black key'' r1)
        else r1)"

definition computeScaleTransitionCost ::
  "int \<Rightarrow> int \<Rightarrow> bool \<Rightarrow> Hand \<Rightarrow> int \<Rightarrow> CostResult" where
  "computeScaleTransitionCost prevFinger currFinger ascending h interval =
    (let rhAscending = (h = RH \<and> ascending);
         rhDescending = (h = RH \<and> \<not> ascending);
         lhAscending = (h = LH \<and> ascending);
         lhDescending = (h = LH \<and> \<not> ascending);
         goodTransitions =
           (if rhAscending \<or> lhDescending then [(1, 2), (2, 3), (3, 1), (3, 4), (4, 5)] else [])
           @ (if rhDescending \<or> lhAscending
              then [(5, 4), (4, 3), (3, 2), (2, 1), (1, 3), (1, 2)] else []);
         isGoodTransition = (\<exists>(from, to) \<in> set goodTransitions. from = prevFinger \<and> to = currFinger);
         r1 = (if isGoodTransition then addReason (- 30) ''Standard scale fingering'' noCost
               else if prevFinger = 3 \<and> currFinger = 1
                 then addReason (- 20) ''Thumb under (3->1)'' noCost
               else if prevFinger = 4 \<and> currFinger = 1
                 then addReason (- 15) ''Thumb under (4->1)'' noCost
               else if prevFinger = 1 \<and> currFinger = 3
                 then addReason (- 20) ''Finger over (1->3)'' noCost
               else if prevFinger = 1 \<and> currFinger = 4
                 then addReason (- 10) ''Finger over (1->4)'' noCost
               else addReason 20 ''Non-standard scale transition'' noCost);
         r2 = (if currFinger = prevFinger then addReason 40 ''Same finger in scale'' r1 else r1);
         naturalSpan = getNaturalSpan prevFinger currFinger
     in if interval > naturalSpan + 2
        then addReason (of_int ((interval - naturalSpan) * 10)) ''Over-stretch in scale'' r2
        else r2)"

text \<open>
  The body of \<^verbatim>\<open>computeTransitionCost\<close> after the scale-mode return is a sequence of
  blocks that each add to \<^verbatim>\<open>cost\<close> and push onto \<^verbatim>\<open>reasons\<close>. Each block is one function on
  the accumulated result, in the order of the source.
\<close>

definition rulePosition :: "Hand \<Rightarrow> HandPosition \<Rightarrow> Note \<Rightarrow> int \<Rightarrow> CostResult \<Rightarrow> CostResult" where
  "rulePosition h pos currNote currFinger r =
    (let offset = pitch currNote - anchorPitch pos;
         expected = expectedFinger h offset
     in if inPosition pos \<and> currFinger = expected
          then addReason (- 40) ''Correct finger for position'' r
        else if inPosition pos
          then (let diff = \<bar>currFinger - expected\<bar>
                in addReason (of_int (diff * 20)) ''Wrong finger for position'' r)
        else r)"

definition ruleDirection :: "Hand \<Rightarrow> int \<Rightarrow> int \<Rightarrow> int \<Rightarrow> CostResult \<Rightarrow> CostResult" where
  "ruleDirection h interval prevFinger currFinger r =
    (let ascending = (interval > 0);
         fingerDiff = currFinger - prevFinger
     in if h = RH then
          (if ascending \<and> fingerDiff > 0 then addReason (- 15) ''Natural RH ascending'' r
           else if \<not> ascending \<and> interval < 0 \<and> fingerDiff < 0
             then addReason (- 15) ''Natural RH descending'' r
           else if interval \<noteq> 0 \<and> fingerDiff \<noteq> 0
             then (if prevFinger \<noteq> 1 \<and> currFinger \<noteq> 1
                   then addReason 50 ''Unnatural finger crossing'' r else r)
           else r)
        else
          (if ascending \<and> fingerDiff < 0 then addReason (- 15) ''Natural LH ascending'' r
           else if \<not> ascending \<and> interval < 0 \<and> fingerDiff > 0
             then addReason (- 15) ''Natural LH descending'' r
           else if interval \<noteq> 0 \<and> fingerDiff \<noteq> 0
             then (if prevFinger \<noteq> 1 \<and> currFinger \<noteq> 1
                   then addReason 50 ''Unnatural finger crossing'' r else r)
           else r))"

definition ruleSpan :: "int \<Rightarrow> int \<Rightarrow> int \<Rightarrow> CostResult \<Rightarrow> CostResult" where
  "ruleSpan interval prevFinger currFinger r =
    (let naturalSpan = getNaturalSpan prevFinger currFinger;
         overStretch = \<bar>interval\<bar> - naturalSpan
     in if overStretch > 4 then addReason (of_int (overStretch * 12)) ''Over-stretch'' r
        else if overStretch > 2 then addCost (of_int (overStretch * 6)) r
        else r)"

definition ruleSameFinger :: "int \<Rightarrow> int \<Rightarrow> int \<Rightarrow> CostResult \<Rightarrow> CostResult" where
  "ruleSameFinger interval prevFinger currFinger r =
    (if currFinger = prevFinger \<and> interval \<noteq> 0
     then addReason (of_int (\<bar>interval\<bar> * 8)) ''Same finger leap'' r else r)"

definition ruleRepeated :: "int \<Rightarrow> int \<Rightarrow> int \<Rightarrow> CostResult \<Rightarrow> CostResult" where
  "ruleRepeated interval prevFinger currFinger r =
    (if interval = 0 \<and> currFinger = prevFinger
       then addReason 30 ''Same finger on repeated note'' r
     else if interval = 0 \<and> currFinger \<noteq> prevFinger
       then addReason (- 10) ''Good finger change on repeat'' r
     else r)"

text \<open>\<^verbatim>\<open>if (transWeight)\<close> holds for a key of the table whose weight is not 0.\<close>
definition ruleTransitionWeight :: "int \<Rightarrow> int \<Rightarrow> CostResult \<Rightarrow> CostResult" where
  "ruleTransitionWeight prevFinger currFinger r =
    (case map_of transitionWeights (prevFinger, currFinger) of
       None \<Rightarrow> r
     | Some transWeight \<Rightarrow>
         (if transWeight = 0 then r
          else if transWeight > 500 then addCost (- 10) r
          else if transWeight > 300 then addCost (- 6) r
          else if transWeight > 100 then addCost (- 3) r
          else r))"

definition ruleBlackKey :: "Note \<Rightarrow> int \<Rightarrow> CostResult \<Rightarrow> CostResult" where
  "ruleBlackKey currNote currFinger r =
    (if isBlackKey (pitch currNote) then
       (if currFinger = 1 \<or> currFinger = 5 then addReason 25 ''Short finger on black key'' r
        else addCost (- 5) r)
     else r)"

text \<open>RULE 8 of the source, the block guarded by \<^verbatim>\<open>isScaleContext\<close>.\<close>
definition ruleScaleContext ::
  "PatternType \<Rightarrow> Hand \<Rightarrow> int \<Rightarrow> int \<Rightarrow> int \<Rightarrow> CostResult \<Rightarrow> CostResult" where
  "ruleScaleContext patternContext h interval prevFinger currFinger r =
    (let ascending = (interval > 0);
         isScaleContext = (patternContext = SCALE)
     in if isScaleContext then
          (if h = RH then
             (if ascending \<and> prevFinger = 3 \<and> currFinger = 1
                then addReason (- 20) ''Good thumb under (3->1)'' r
              else if \<not> ascending \<and> prevFinger = 1 \<and> currFinger = 3
                then addReason (- 20) ''Good finger over (1->3)'' r
              else r)
           else
             (if \<not> ascending \<and> prevFinger = 3 \<and> currFinger = 1
                then addReason (- 20) ''Good thumb under (3->1)'' r
              else if ascending \<and> prevFinger = 1 \<and> currFinger = 3
                then addReason (- 20) ''Good finger over (1->3)'' r
              else r))
        else r)"

text \<open>The blocks of the position-mode path up to RULE 7, before any scaling: lines
  398 to 504 of the source.\<close>
definition positionRules ::
  "Note \<Rightarrow> int \<Rightarrow> Note \<Rightarrow> int \<Rightarrow> Hand \<Rightarrow> HandPosition \<Rightarrow> CostResult" where
  "positionRules prevNote prevFinger currNote currFinger h pos =
    (let interval = pitch currNote - pitch prevNote
     in ruleBlackKey currNote currFinger
          (ruleTransitionWeight prevFinger currFinger
            (ruleRepeated interval prevFinger currFinger
              (ruleSameFinger interval prevFinger currFinger
                (ruleSpan interval prevFinger currFinger
                  (ruleDirection h interval prevFinger currFinger
                    (rulePosition h pos currNote currFinger noCost)))))))"

text \<open>Everything \<^verbatim>\<open>computeTransitionCost\<close> does below its scale-mode return: the blocks
  above, RULE 8, and the difficulty adjustment of the accumulated cost.\<close>
definition positionModeCost ::
  "Difficulty \<Rightarrow> Note \<Rightarrow> int \<Rightarrow> Note \<Rightarrow> int \<Rightarrow> PatternType \<Rightarrow> Hand \<Rightarrow> HandPosition \<Rightarrow> CostResult" where
  "positionModeCost level prevNote prevFinger currNote currFinger patternContext h pos =
    (let interval = pitch currNote - pitch prevNote;
         r = ruleScaleContext patternContext h interval prevFinger currFinger
               (positionRules prevNote prevFinger currNote currFinger h pos)
     in \<lparr>cost = applyDifficultyAdjustment level (cost r) patternContext, reasons = reasons r\<rparr>)"

definition computeTransitionCost ::
  "Difficulty \<Rightarrow> Note \<Rightarrow> int \<Rightarrow> Note \<Rightarrow> int \<Rightarrow> PatternType \<Rightarrow> Hand \<Rightarrow> HandPosition \<Rightarrow> CostResult" where
  "computeTransitionCost level prevNote prevFinger currNote currFinger patternContext h pos =
    (let interval = pitch currNote - pitch prevNote;
         absInterval = \<bar>interval\<bar>;
         ascending = (interval > 0)
     in if isScale pos \<or> patternContext = SCALE
        then computeScaleTransitionCost prevFinger currFinger ascending h absInterval
        else positionModeCost level prevNote prevFinger currNote currFinger patternContext h pos)"

section \<open>Pattern context\<close>

text \<open>The two \<^verbatim>\<open>for\<close> loops of \<^verbatim>\<open>getPatternContext\<close>, each returning at its first match.\<close>

fun firstByMeasure :: "Note \<Rightarrow> PatternSegment list \<Rightarrow> PatternType option" where
  "firstByMeasure note [] = None"
| "firstByMeasure note (p # ps) =
    (if measureNumber note \<ge> startIndex p \<and> measureNumber note \<le> endIndex p
     then Some (patternType p) else firstByMeasure note ps)"

fun firstByIndex :: "nat \<Rightarrow> PatternSegment list \<Rightarrow> PatternType option" where
  "firstByIndex index [] = None"
| "firstByIndex index (p # ps) =
    (if int index \<ge> startIndex p \<and> int index \<le> endIndex p
     then Some (patternType p) else firstByIndex index ps)"

text \<open>The optimiser calls this with \<open>1 \<le> index < length notes\<close> only, so \<^verbatim>\<open>notes[index]\<close>
  is always a note.\<close>
definition getPatternContext :: "Note list \<Rightarrow> nat \<Rightarrow> PatternSegment list \<Rightarrow> PatternType" where
  "getPatternContext notes index patterns =
    (case firstByMeasure (notes ! index) patterns of
       Some t \<Rightarrow> t
     | None \<Rightarrow> (case firstByIndex index patterns of Some t \<Rightarrow> t | None \<Rightarrow> UNKNOWN))"

section \<open>Hand positions and scale detection\<close>

text \<open>The loop of \<^verbatim>\<open>detectScalePattern\<close> over \<open>i = 1, ..., n - 1\<close>, as a recursion over the
  consecutive pairs; the state is (stepwiseCount, sameDirection, lastDirection).\<close>
fun scaleScan :: "Note list \<Rightarrow> nat \<times> nat \<times> int \<Rightarrow> nat \<times> nat \<times> int" where
  "scaleScan (a # b # rest) (stepwiseCount, sameDirection, lastDirection) =
    (let interval = pitch b - pitch a;
         absInterval = \<bar>interval\<bar>
     in if absInterval = 1 \<or> absInterval = 2 then
          (let direction = sgn interval
           in scaleScan (b # rest)
                (stepwiseCount + 1,
                 (if direction = lastDirection \<and> direction \<noteq> 0
                  then sameDirection + 1 else sameDirection),
                 direction))
        else scaleScan (b # rest) (stepwiseCount, sameDirection, lastDirection))"
| "scaleScan notes acc = acc"

text \<open>\<^verbatim>\<open>Math.max(...pitches)\<close> and \<^verbatim>\<open>Math.min(...pitches)\<close>; they are only reached with at
  least 8 pitches.\<close>
definition maxPitch :: "int list \<Rightarrow> int" where
  "maxPitch ps = fold max (tl ps) (hd ps)"

definition minPitch :: "int list \<Rightarrow> int" where
  "minPitch ps = fold min (tl ps) (hd ps)"

definition detectScalePattern :: "Note list \<Rightarrow> bool" where
  "detectScalePattern notes =
    (if length notes < 8 then False
     else
       (case scaleScan notes (0, 0, 0) of
          (stepwiseCount, sameDirection, lastDirection) \<Rightarrow>
            (let stepwiseRatio = (of_nat stepwiseCount :: rat) / of_nat (length notes - 1);
                 directionRatio =
                   (if length notes > 2
                    then (of_nat sameDirection :: rat) / of_nat (length notes - 2) else 0);
                 pitches = map pitch notes;
                 range = maxPitch pitches - minPitch pitches
             in stepwiseRatio > 8 / 10 \<and> directionRatio > 6 / 10 \<and> range > 7)))"

definition anchorOf :: "Hand \<Rightarrow> int \<Rightarrow> int \<Rightarrow> int" where
  "anchorOf h minP maxP = (if h = RH then minP else maxP)"

text \<open>The position-mode loop of \<^verbatim>\<open>analyzeHandPositions\<close>. \<open>segLen\<close> is \<open>i - segmentStart\<close>,
  the number of notes already in the open segment; closing a segment writes its
  positions, and the end of the array writes those of the last one.\<close>
fun positionScan :: "Hand \<Rightarrow> Note list \<Rightarrow> nat \<Rightarrow> int \<Rightarrow> int \<Rightarrow> HandPosition list" where
  "positionScan h [] segLen minP maxP =
    replicate segLen \<lparr>anchorPitch = anchorOf h minP maxP, inPosition = True, isScale = False\<rparr>"
| "positionScan h (note # rest) segLen minP maxP =
    (let p = pitch note;
         newMin = min minP p;
         newMax = max maxP p
     in if newMax - newMin > 7 then
          replicate segLen
            \<lparr>anchorPitch = anchorOf h minP maxP, inPosition = True, isScale = False\<rparr>
          @ positionScan h rest 1 p p
        else positionScan h rest (Suc segLen) newMin newMax)"

definition analyzeHandPositions :: "Note list \<Rightarrow> Hand \<Rightarrow> HandPosition list" where
  "analyzeHandPositions notes h =
    (if notes = [] then []
     else if detectScalePattern notes then
       replicate (length notes)
         \<lparr>anchorPitch = pitch (notes ! 0), inPosition = False, isScale = True\<rparr>
     else positionScan h notes 0 (pitch (notes ! 0)) (pitch (notes ! 0)))"

section \<open>The DP optimiser\<close>

definition initialRow :: "Note list \<Rightarrow> Hand \<Rightarrow> HandPosition list \<Rightarrow> DpRow" where
  "initialRow notes h handPositions =
    map (\<lambda>fingr.
          (let c = computeInitialCost fingr (notes ! 0) h (handPositions ! 0)
           in (fingr, \<lparr>cellCost = cost c, parent = None, cellReasons = reasons c\<rparr>)))
        fingers"

text \<open>One iteration of the innermost loop (over \<^verbatim>\<open>fromFinger\<close>) on its three variables
  \<^verbatim>\<open>minCost\<close>, \<^verbatim>\<open>bestParent\<close>, \<^verbatim>\<open>bestReasons\<close>; both \<^verbatim>\<open>continue\<close> statements leave them
  as they are.\<close>
definition relaxEdge ::
  "Difficulty \<Rightarrow> DpRow \<Rightarrow> Note \<Rightarrow> Note \<Rightarrow> int \<Rightarrow> PatternType \<Rightarrow> Hand \<Rightarrow> HandPosition \<Rightarrow> nat \<Rightarrow>
     int \<Rightarrow> Cost \<times> (nat \<times> int) option \<times> string list \<Rightarrow> Cost \<times> (nat \<times> int) option \<times> string list" where
  "relaxEdge level prevRow prevNote currNote toFinger patternContext h pos i fromFinger best =
    (case map_of prevRow fromFinger of
       None \<Rightarrow> best
     | Some prevState \<Rightarrow>
         (let transitionCost =
                computeTransitionCost level prevNote fromFinger currNote toFinger patternContext h pos
          in if cost transitionCost > 300 then best
             else
               (let total = cellCost prevState + cost transitionCost
                in if costLess total (fst best)
                   then (Fin total, Some (i - 1, fromFinger), reasons transitionCost)
                   else best)))"

text \<open>The body of the loop over \<^verbatim>\<open>toFinger\<close>: the cell is set only when some edge
  survived, that is when \<^verbatim>\<open>minCost < Infinity\<close>.\<close>
definition bestCell ::
  "Difficulty \<Rightarrow> DpRow \<Rightarrow> Note \<Rightarrow> Note \<Rightarrow> PatternType \<Rightarrow> Hand \<Rightarrow> HandPosition \<Rightarrow> nat \<Rightarrow> int \<Rightarrow>
     (int \<times> DpCell) list" where
  "bestCell level prevRow prevNote currNote patternContext h pos i toFinger =
    (case fold (relaxEdge level prevRow prevNote currNote toFinger patternContext h pos i) fingers
            (Infinity, None, []) of
       (Fin minCost, bestParent, bestReasons) \<Rightarrow>
         [(toFinger, \<lparr>cellCost = minCost, parent = bestParent, cellReasons = bestReasons\<rparr>)]
     | (Infinity, bestParent, bestReasons) \<Rightarrow> [])"

text \<open>The body of the forward pass at index \<open>i\<close>: the row \<^verbatim>\<open>dp[i]\<close> from \<^verbatim>\<open>dp[i - 1]\<close>.\<close>
definition dpRow ::
  "Difficulty \<Rightarrow> Note list \<Rightarrow> PatternSegment list \<Rightarrow> Hand \<Rightarrow> HandPosition list \<Rightarrow> DpRow \<Rightarrow> nat \<Rightarrow> DpRow" where
  "dpRow level notes patterns h handPositions prevRow i =
    (let pos = handPositions ! i;
         patternContext = getPatternContext notes i patterns
     in concat (map (bestCell level prevRow (notes ! (i - 1)) (notes ! i) patternContext h pos i)
                  fingers))"

text \<open>The table after the forward pass has filled the rows \<open>0, ..., k\<close>.\<close>
fun dpTable ::
  "Difficulty \<Rightarrow> Note list \<Rightarrow> PatternSegment list \<Rightarrow> Hand \<Rightarrow> HandPosition list \<Rightarrow> nat \<Rightarrow> DpRow list" where
  "dpTable level notes patterns h handPositions 0 = [initialRow notes h handPositions]"
| "dpTable level notes patterns h handPositions (Suc k) =
    (let dp = dpTable level notes patterns h handPositions k
     in dp @ [dpRow level notes patterns h handPositions (dp ! k) (Suc k)])"

text \<open>\<^verbatim>\<open>reasons.join('; ')\<close>.\<close>
fun joinReasons :: "string list \<Rightarrow> string" where
  "joinReasons [] = []"
| "joinReasons [r] = r"
| "joinReasons (r # rs) = r @ ''; '' @ joinReasons rs"

text \<open>The first loop of \<^verbatim>\<open>backtrack\<close>, over the entries of the last row in insertion
  order, on (\<^verbatim>\<open>minFinalCost\<close>, \<^verbatim>\<open>bestFinalFinger\<close>).\<close>
definition pickFinal :: "int \<times> DpCell \<Rightarrow> Cost \<times> int \<Rightarrow> Cost \<times> int" where
  "pickFinal entry best =
    (if costLess (cellCost (snd entry)) (fst best) then (Fin (cellCost (snd entry)), fst entry)
     else best)"

definition bestFinal :: "DpRow \<Rightarrow> Cost \<times> int" where
  "bestFinal lastRow = fold pickFinal lastRow (Infinity, 3)"

text \<open>The second loop of \<^verbatim>\<open>backtrack\<close>, for \<open>i = k - 1\<close> down to 0 with \<^verbatim>\<open>currentFinger\<close>;
  it returns the entries \<open>0, ..., k - 1\<close> of \<^verbatim>\<open>fingering\<close>, \<^verbatim>\<open>explanations\<close> and \<^verbatim>\<open>path\<close>.
  A missing cell (\<^verbatim>\<open>state\<close> undefined) gives the empty explanation, cost 0 and no
  reasons, and leaves \<^verbatim>\<open>currentFinger\<close> as it is; so does a cell without parent.\<close>
fun walkBack ::
  "DpRow list \<Rightarrow> Note list \<Rightarrow> Hand \<Rightarrow> nat \<Rightarrow> int \<Rightarrow> int list \<times> string list \<times> FingeringState list" where
  "walkBack dp notes h 0 currentFinger = ([], [], [])"
| "walkBack dp notes h (Suc i) currentFinger =
    (let state = map_of (dp ! i) currentFinger;
         explanation = (case state of None \<Rightarrow> [] | Some s \<Rightarrow> joinReasons (cellReasons s));
         step = \<lparr>noteIndex = i, finger = currentFinger, stateHand = h,
                 handPosition = pitch (notes ! i),
                 stateCost = (case state of None \<Rightarrow> 0 | Some s \<Rightarrow> cellCost s),
                 stateReasons = (case state of None \<Rightarrow> [] | Some s \<Rightarrow> cellReasons s)\<rparr>;
         nextFinger =
           (case state of
              None \<Rightarrow> currentFinger
            | Some s \<Rightarrow> (case parent s of None \<Rightarrow> currentFinger | Some (j, prevFinger) \<Rightarrow> prevFinger))
     in (case walkBack dp notes h i nextFinger of
           (fs, es, ps) \<Rightarrow> (fs @ [currentFinger], es @ [explanation], ps @ [step])))"

definition backtrack :: "DpRow list \<Rightarrow> Note list \<Rightarrow> Hand \<Rightarrow> FingeringSolution" where
  "backtrack dp notes h =
    (let n = length notes in
     (case bestFinal (dp ! (n - 1)) of
        (minFinalCost, bestFinalFinger) \<Rightarrow>
          (case walkBack dp notes h n bestFinalFinger of
             (fs, es, ps) \<Rightarrow>
               \<lparr>fingering = fs, totalCost = minFinalCost, path = ps, explanations = es\<rparr>)))"

text \<open>\<^verbatim>\<open>dpOptimization\<close> reads \<^verbatim>\<open>notes[0].pitch\<close> first, which raises on an empty array;
  on a non-empty one every index it uses is in range.\<close>
definition dpOptimization ::
  "Difficulty \<Rightarrow> Note list \<Rightarrow> PatternSegment list \<Rightarrow> Hand \<Rightarrow> error + FingeringSolution" where
  "dpOptimization level notes patterns h =
    (if notes = [] then Inl TypeError
     else
       (let n = length notes;
            handPositions = analyzeHandPositions notes h;
            dp = dpTable level notes patterns h handPositions (n - 1)
        in Inr (backtrack dp notes h)))"

section \<open>The chunked optimiser\<close>

definition chunkSize :: nat where
  "chunkSize = 32"

definition overlapSize :: nat where
  "overlapSize = 4"

text \<open>The first loop of \<^verbatim>\<open>chunkedOptimization\<close>, from index \<open>i\<close> on.\<close>
function chunkNotes :: "Note list \<Rightarrow> nat \<Rightarrow> Note list list" where
  "chunkNotes notes i =
    (if i < length notes then
       (let end = min (i + chunkSize) (length notes)
        in take (end - i) (drop i notes) # chunkNotes notes (i + (chunkSize - overlapSize)))
     else [])"
  by pat_completeness auto
termination
  by (relation "measure (\<lambda>(notes, i). length notes - i)")
     (auto simp: chunkSize_def overlapSize_def)

declare chunkNotes.simps [simp del]

text \<open>\<^verbatim>\<open>chunks.map(chunk => this.dpOptimization(...))\<close>: the first failure ends the map.\<close>
fun mapResult :: "('a \<Rightarrow> error + 'b) \<Rightarrow> 'a list \<Rightarrow> error + 'b list" where
  "mapResult f [] = Inr []"
| "mapResult f (x # xs) =
    (case f x of
       Inl e \<Rightarrow> Inl e
     | Inr y \<Rightarrow> (case mapResult f xs of Inl e \<Rightarrow> Inl e | Inr ys \<Rightarrow> Inr (y # ys)))"

text \<open>The stitching loop from index \<open>i\<close> on, on the solution built so far.\<close>
fun stitch :: "nat \<Rightarrow> FingeringSolution list \<Rightarrow> FingeringSolution \<Rightarrow> FingeringSolution" where
  "stitch i [] acc = acc"
| "stitch i (sol # sols) acc =
    stitch (Suc i) sols
      \<lparr>fingering =
         fingering acc @ (if i = 0 then fingering sol else drop overlapSize (fingering sol)),
       totalCost = costPlus (totalCost acc) (totalCost sol),
       path = [],
       explanations =
         explanations acc
         @ (if i = 0 then explanations sol else drop overlapSize (explanations sol))\<rparr>"

definition emptySolution :: FingeringSolution where
  "emptySolution = \<lparr>fingering = [], totalCost = Fin 0, path = [], explanations = []\<rparr>"

definition chunkedOptimization ::
  "Difficulty \<Rightarrow> Note list \<Rightarrow> PatternSegment list \<Rightarrow> Hand \<Rightarrow> error + FingeringSolution" where
  "chunkedOptimization level notes patterns h =
    (let chunks = chunkNotes notes 0
     in (case mapResult (\<lambda>chunk. dpOptimization level chunk patterns h) chunks of
           Inl e \<Rightarrow> Inl e
         | Inr chunkSolutions \<Rightarrow> Inr (stitch 0 chunkSolutions emptySolution)))"

section \<open>Planning a hand and merging the hands\<close>

definition planHandFingering ::
  "Difficulty \<Rightarrow> Note list \<Rightarrow> PatternSegment list \<Rightarrow> Hand \<Rightarrow> error + FingeringSolution" where
  "planHandFingering level notes patterns h =
    (if length notes = 0 then Inr emptySolution
     else if length notes > 64 then chunkedOptimization level notes patterns h
     else dpOptimization level notes patterns h)"

text \<open>\<^verbatim>\<open>solution.fingering[idx] || 3\<close>: an index past the end reads \<^verbatim>\<open>undefined\<close>, and
  \<^verbatim>\<open>undefined\<close> and 0 are replaced by 3.\<close>
definition fingerOr3 :: "int list \<Rightarrow> nat \<Rightarrow> int" where
  "fingerOr3 fs idx = (if idx < length fs \<and> fs ! idx \<noteq> 0 then fs ! idx else 3)"

text \<open>\<^verbatim>\<open>solution.explanations[idx] || ''\<close>.\<close>
definition explanationOrEmpty :: "string list \<Rightarrow> nat \<Rightarrow> string" where
  "explanationOrEmpty es idx = (if idx < length es \<and> es ! idx \<noteq> [] then es ! idx else [])"

text \<open>The \<^verbatim>\<open>forEach\<close> of \<^verbatim>\<open>planFingering\<close> with its two counters; it assigns every index of
  the two result arrays, in order.\<close>
fun mergeHands ::
  "Note list \<Rightarrow> FingeringSolution \<Rightarrow> FingeringSolution \<Rightarrow> nat \<Rightarrow> nat \<Rightarrow> int list \<times> string list" where
  "mergeHands [] rhSolution lhSolution rhIdx lhIdx = ([], [])"
| "mergeHands (note # rest) rhSolution lhSolution rhIdx lhIdx =
    (if hand note = RH then
       (case mergeHands rest rhSolution lhSolution (Suc rhIdx) lhIdx of
          (fs, es) \<Rightarrow>
            (fingerOr3 (fingering rhSolution) rhIdx # fs,
             explanationOrEmpty (explanations rhSolution) rhIdx # es))
     else
       (case mergeHands rest rhSolution lhSolution rhIdx (Suc lhIdx) of
          (fs, es) \<Rightarrow>
            (fingerOr3 (fingering lhSolution) lhIdx # fs,
             explanationOrEmpty (explanations lhSolution) lhIdx # es)))"

definition planFingering ::
  "Difficulty \<Rightarrow> Note list \<Rightarrow> PatternSegment list \<Rightarrow> error + FingeringSolution" where
  "planFingering level notes patterns =
    (if length notes = 0 then Inr emptySolution
     else
       (let rhNotes = filter (\<lambda>n. hand n = RH) notes;
            lhNotes = filter (\<lambda>n. hand n = LH) notes
        in (case planHandFingering level rhNotes patterns RH of
              Inl e \<Rightarrow> Inl e
            | Inr rhSolution \<Rightarrow>
                (case planHandFingering level lhNotes patterns LH of
                   Inl e \<Rightarrow> Inl e
                 | Inr lhSolution \<Rightarrow>
                     (case mergeHands notes rhSolution lhSolution 0 0 of
                        (fs, es) \<Rightarrow>
                          Inr \<lparr>fingering = fs,
                               totalCost = costPlus (totalCost rhSolution) (totalCost lhSolution),
                               path = path rhSolution @ path lhSolution,
                               explanations = es\<rparr>)))))"

section \<open>Notions used in the statements\<close>

text \<open>A window and its solution: the DP optimiser returns the solution for the window,
  with one finger and one explanation per note.\<close>
definition solves ::
  "Difficulty \<Rightarrow> PatternSegment list \<Rightarrow> Hand \<Rightarrow> Note list \<Rightarrow> FingeringSolution \<Rightarrow> bool" where
  "solves level patterns h c s =
    (dpOptimization level c patterns h = Inr s \<and> length (fingering s) = length c \<and>
     length (explanations s) = length c)"

text \<open>The difficulty table in one place: the factor that belongs to a level and a
  pattern context.\<close>
definition difficultyMultiplier :: "Difficulty \<Rightarrow> PatternType \<Rightarrow> rat" where
  "difficultyMultiplier level patternContext =
    (case level of
       Beginner \<Rightarrow>
         (if patternContext = POLYPHONIC \<or> patternContext = ORNAMENTED then 13 / 10 else 11 / 10)
     | Intermediate \<Rightarrow> 1
     | Advanced \<Rightarrow> 9 / 10)"

text \<open>A segment contains a note by its measure number, or an index.\<close>
definition containsMeasure :: "Note \<Rightarrow> PatternSegment \<Rightarrow> bool" where
  "containsMeasure note p = (startIndex p \<le> measureNumber note \<and> measureNumber note \<le> endIndex p)"

definition containsIndex :: "nat \<Rightarrow> PatternSegment \<Rightarrow> bool" where
  "containsIndex index p = (startIndex p \<le> int index \<and> int index \<le> endIndex p)"

text \<open>The pattern context in words: the type of the first segment, in the order given,
  that contains the note's measure number; failing that, of the first that contains the
  index; failing that, UNKNOWN.\<close>
definition firstMatchContext :: "Note \<Rightarrow> nat \<Rightarrow> PatternSegment list \<Rightarrow> PatternType" where
  "firstMatchContext note index patterns =
    (case find (containsMeasure note) patterns of
       Some p \<Rightarrow> patternType p
     | None \<Rightarrow>
         (case find (containsIndex index) patterns of
            Some p \<Rightarrow> patternType p
          | None \<Rightarrow> UNKNOWN))"

text \<open>The pitch intervals of the consecutive pairs of a sequence, and the stepwise ones.\<close>
definition intervals :: "Note list \<Rightarrow> int list" where
  "intervals ns = map (\<lambda>(a, b). pitch b - pitch a) (zip ns (tl ns))"

definition stepwise :: "int \<Rightarrow> bool" where
  "stepwise d = (\<bar>d\<bar> = 1 \<or> \<bar>d\<bar> = 2)"

text \<open>The number of intervals of a list whose sign is not 0 and repeats the previous
  sign that was not 0 (\<open>lastSign\<close>, 0 when there was none).\<close>
fun signRepeats :: "int list \<Rightarrow> int \<Rightarrow> nat" where
  "signRepeats [] lastSign = 0"
| "signRepeats (d # ds) lastSign =
    (if sgn d \<noteq> 0 \<and> sgn d = lastSign then 1 else 0)
    + signRepeats ds (if sgn d \<noteq> 0 then sgn d else lastSign)"

text \<open>Scale classification as the specification words it: the same-direction count runs
  over the signs of all consecutive pitch intervals.\<close>
definition scaleBySpec :: "Note list \<Rightarrow> bool" where
  "scaleBySpec ns =
    (length ns \<ge> 8 \<and>
     (of_nat (length (filter stepwise (intervals ns))) :: rat) / of_nat (length ns - 1) > 8 / 10 \<and>
     (of_nat (signRepeats (intervals ns) 0) :: rat) / of_nat (length ns - 2) > 6 / 10 \<and>
     Max (pitch ` set ns) - Min (pitch ` set ns) > 7)"

text \<open>The same count over the stepwise intervals only: a stepwise interval is counted
  when its direction is that of the stepwise interval before it, whatever lies between.\<close>
definition stepRepeats :: "Note list \<Rightarrow> nat" where
  "stepRepeats ns = signRepeats (filter stepwise (intervals ns)) 0"

text \<open>The entries of a result array that belong to the notes of one hand, in order.\<close>
definition handPart :: "Hand \<Rightarrow> Note list \<Rightarrow> 'a list \<Rightarrow> 'a list" where
  "handPart h ns xs = map snd (filter (\<lambda>(n, x). hand n = h) (zip ns xs))"

text \<open>What the merge reads from a hand's solution for the first \<open>k\<close> notes of that hand.\<close>
definition handView :: "FingeringSolution \<Rightarrow> nat \<Rightarrow> int list \<times> string list" where
  "handView handSol k =
    (map (fingerOr3 (fingering handSol)) [0 ..< k],
     map (explanationOrEmpty (explanations handSol)) [0 ..< k])"

text \<open>The cost that the cost model gives to a whole fingering of a hand's sequence: the
  initial cost of the first finger and the transition cost of every consecutive pair,
  with the positions and pattern contexts the optimiser uses.\<close>
definition fingeringCost ::
  "Difficulty \<Rightarrow> Note list \<Rightarrow> PatternSegment list \<Rightarrow> Hand \<Rightarrow> int list \<Rightarrow> rat" where
  "fingeringCost level ns patterns h fs =
    (let hps = analyzeHandPositions ns h
     in cost (computeInitialCost (fs ! 0) (ns ! 0) h (hps ! 0))
        + sum_list (map (\<lambda>i. cost (computeTransitionCost level (ns ! (i - 1)) (fs ! (i - 1))
                                      (ns ! i) (fs ! i) (getPatternContext ns i patterns) h (hps ! i)))
                     [1 ..< length ns]))"

text \<open>Example inputs.\<close>
definition rhNote :: "int \<Rightarrow> Note" where
  "rhNote p = \<lparr>pitch = p, hand = RH, measureNumber = 1\<rparr>"

definition lhNote :: "int \<Rightarrow> Note" where
  "lhNote p = \<lparr>pitch = p, hand = LH, measureNumber = 1\<rparr>"

definition cMajorScale :: "Note list" where
  "cMajorScale = map rhNote [60, 62, 64, 65, 67, 69, 71, 72, 74, 76]"

definition leapRun :: "Note list" where
  "leapRun = map rhNote [60, 62, 64, 66, 68, 70, 75, 74, 73, 74, 73]"

definition farNotes :: "Note list" where
  "farNotes = [rhNote 0, rhNote 100]"

definition longHand :: "Note list" where
  "longHand = replicate 65 \<lparr>pitch = 60, hand = RH, measureNumber = 1000\<rparr>"

text \<open>A long right hand with one leap, its second window (the notes 28 to 59 of the hand),
  and a single SCALE segment from 12 to 12.\<close>
definition leapHand :: "Note list" where
  "leapHand =
    replicate 40 \<lparr>pitch = 36, hand = RH, measureNumber = 1000\<rparr>
    @ [\<lparr>pitch = 74, hand = RH, measureNumber = 1000\<rparr>]
    @ replicate 24 \<lparr>pitch = 67, hand = RH, measureNumber = 1000\<rparr>"

definition leapWindow :: "Note list" where
  "leapWindow = take 32 (drop 28 leapHand)"

definition segment12 :: "PatternSegment list" where
  "segment12 = [\<lparr>startIndex = 12, endIndex = 12, patternType = SCALE\<rparr>]"

text \<open>The table of the forward pass for the C major example, row by row.\<close>
definition cMajorTable :: "DpRow list" where
  "cMajorTable =
    [[(1, \<lparr>cellCost = - 30, parent = None, cellReasons = [''Matches hand position'']\<rparr>),
      (2, \<lparr>cellCost = 15, parent = None, cellReasons = [''1 fingers from expected'']\<rparr>),
      (3, \<lparr>cellCost = 30, parent = None, cellReasons = [''2 fingers from expected'']\<rparr>),
      (4, \<lparr>cellCost = 45, parent = None, cellReasons = [''3 fingers from expected'']\<rparr>),
      (5, \<lparr>cellCost = 60, parent = None, cellReasons = [''4 fingers from expected'']\<rparr>)],
     [(1, \<lparr>cellCost = 0, parent = Some (0, 3), cellReasons = [''Standard scale fingering'']\<rparr>),
      (2, \<lparr>cellCost = - 60, parent = Some (0, 1), cellReasons = [''Standard scale fingering'']\<rparr>),
      (3, \<lparr>cellCost = - 50, parent = Some (0, 1), cellReasons = [''Finger over (1->3)'']\<rparr>),
      (4, \<lparr>cellCost = - 40, parent = Some (0, 1), cellReasons = [''Finger over (1->4)'']\<rparr>),
      (5, \<lparr>cellCost = - 10, parent = Some (0, 1), cellReasons = [''Non-standard scale transition'']\<rparr>)],
     [(1, \<lparr>cellCost = - 80, parent = Some (1, 3), cellReasons = [''Standard scale fingering'']\<rparr>),
      (2, \<lparr>cellCost = - 30, parent = Some (1, 1), cellReasons = [''Standard scale fingering'']\<rparr>),
      (3, \<lparr>cellCost = - 90, parent = Some (1, 2), cellReasons = [''Standard scale fingering'']\<rparr>),
      (4, \<lparr>cellCost = - 80, parent = Some (1, 3), cellReasons = [''Standard scale fingering'']\<rparr>),
      (5, \<lparr>cellCost = - 70, parent = Some (1, 4), cellReasons = [''Standard scale fingering'']\<rparr>)],
     [(1, \<lparr>cellCost = - 120, parent = Some (2, 3), cellReasons = [''Standard scale fingering'']\<rparr>),
      (2, \<lparr>cellCost = - 110, parent = Some (2, 1), cellReasons = [''Standard scale fingering'']\<rparr>),
      (3, \<lparr>cellCost = - 100, parent = Some (2, 1), cellReasons = [''Finger over (1->3)'']\<rparr>),
      (4, \<lparr>cellCost = - 120, parent = Some (2, 3), cellReasons = [''Standard scale fingering'']\<rparr>),
      (5, \<lparr>cellCost = - 110, parent = Some (2, 4), cellReasons = [''Standard scale fingering'']\<rparr>)],
     [(1, \<lparr>cellCost = - 135, parent = Some (3, 4), cellReasons = [''Thumb under (4->1)'']\<rparr>),
      (2, \<lparr>cellCost = - 150, parent = Some (3, 1), cellReasons = [''Standard scale fingering'']\<rparr>),
      (3, \<lparr>cellCost = - 140, parent = Some (3, 1), cellReasons = [''Finger over (1->3)'']\<rparr>),
      (4, \<lparr>cellCost = - 130, parent = Some (3, 1), cellReasons = [''Finger over (1->4)'']\<rparr>),
      (5, \<lparr>cellCost = - 150, parent = Some (3, 4), cellReasons = [''Standard scale fingering'']\<rparr>)],
     [(1, \<lparr>cellCost = - 170, parent = Some (4, 3), cellReasons = [''Standard scale fingering'']\<rparr>),
      (2, \<lparr>cellCost = - 165, parent = Some (4, 1), cellReasons = [''Standard scale fingering'']\<rparr>),
      (3, \<lparr>cellCost = - 180, parent = Some (4, 2), cellReasons = [''Standard scale fingering'']\<rparr>),
      (4, \<lparr>cellCost = - 170, parent = Some (4, 3), cellReasons = [''Standard scale fingering'']\<rparr>),
      (5, \<lparr>cellCost = - 160, parent = Some (4, 4), cellReasons = [''Standard scale fingering'']\<rparr>)],
     [(1, \<lparr>cellCost = - 210, parent = Some (5, 3), cellReasons = [''Standard scale fingering'']\<rparr>),
      (2, \<lparr>cellCost = - 200, parent = Some (5, 1), cellReasons = [''Standard scale fingering'']\<rparr>),
      (3, \<lparr>cellCost = - 195, parent = Some (5, 2), cellReasons = [''Standard scale fingering'']\<rparr>),
      (4, \<lparr>cellCost = - 210, parent = Some (5, 3), cellReasons = [''Standard scale fingering'']\<rparr>),
      (5, \<lparr>cellCost = - 200, parent = Some (5, 4), cellReasons = [''Standard scale fingering'']\<rparr>)],
     [(1, \<lparr>cellCost = - 225, parent = Some (6, 3), cellReasons = [''Standard scale fingering'']\<rparr>),
      (2, \<lparr>cellCost = - 240, parent = Some (6, 1), cellReasons = [''Standard scale fingering'']\<rparr>),
      (3, \<lparr>cellCost = - 230, parent = Some (6, 1), cellReasons = [''Finger over (1->3)'']\<rparr>),
      (4, \<lparr>cellCost = - 225, parent = Some (6, 3), cellReasons = [''Standard scale fingering'']\<rparr>),
      (5, \<lparr>cellCost = - 240, parent = Some (6, 4), cellReasons = [''Standard scale fingering'']\<rparr>)],
     [(1, \<lparr>cellCost = - 260, parent = Some (7, 3), cellReasons = [''Standard scale fingering'']\<rparr>),
      (2, \<lparr>cellCost = - 255, parent = Some (7, 1), cellReasons = [''Standard scale fingering'']\<rparr>),
      (3, \<lparr>cellCost = - 270, parent = Some (7, 2), cellReasons = [''Standard scale fingering'']\<rparr>),
      (4, \<lparr>cellCost = - 260, parent = Some (7, 3), cellReasons = [''Standard scale fingering'']\<rparr>),
      (5, \<lparr>cellCost = - 255, parent = Some (7, 4), cellReasons = [''Standard scale fingering'']\<rparr>)],
     [(1, \<lparr>cellCost = - 300, parent = Some (8, 3), cellReasons = [''Standard scale fingering'']\<rparr>),
      (2, \<lparr>cellCost = - 290, parent = Some (8, 1), cellReasons = [''Standard scale fingering'']\<rparr>),
      (3, \<lparr>cellCost = - 285, parent = Some (8, 2), cellReasons = [''Standard scale fingering'']\<rparr>),
      (4, \<lparr>cellCost = - 300, parent = Some (8, 3), cellReasons = [''Standard scale fingering'']\<rparr>),
      (5, \<lparr>cellCost = - 290, parent = Some (8, 4), cellReasons = [''Standard scale fingering'']\<rparr>)]]"

section \<open>Lengths of the results\<close>

text \<open>The position analysis yields one position per note, the forward pass one row per
  note, and the backtracking loop writes every index of its arrays.\<close>

lemma positionScan_length:
  "length (positionScan h ns segLen minP maxP) = segLen + length ns"
  by (induction ns arbitrary: segLen minP maxP) (auto simp: Let_def)

lemma analyzeHandPositions_length:
  "length (analyzeHandPositions notes h) = length notes"
  by (simp add: analyzeHandPositions_def positionScan_length)

lemma dpTable_length:
  "length (dpTable level notes patterns h hps k) = Suc k"
  by (induction k) (simp_all add: Let_def)

lemma walkBack_length:
  "walkBack dp notes h k cur = (fs, es, ps) \<Longrightarrow> length fs = k \<and> length es = k \<and> length ps = k"
proof (induction k arbitrary: cur fs es ps)
  case 0
  then show ?case by simp
next
  case (Suc k)
  then show ?case
    by (auto simp: Let_def split: prod.splits)
qed

lemma backtrack_length:
  "length (fingering (backtrack dp notes h)) = length notes \<and>
   length (explanations (backtrack dp notes h)) = length notes"
proof -
  obtain c f where bf: "bestFinal (dp ! (length notes - 1)) = (c, f)"
    by (cases "bestFinal (dp ! (length notes - 1))")
  obtain fs es ps where wb: "walkBack dp notes h (length notes) f = (fs, es, ps)"
    by (cases "walkBack dp notes h (length notes) f")
  from walkBack_length [OF wb] bf wb show ?thesis
    by (simp add: backtrack_def Let_def)
qed

lemma dpOptimization_length:
  assumes "notes \<noteq> []"
  shows "\<exists>sol. dpOptimization level notes patterns h = Inr sol \<and>
    length (fingering sol) = length notes \<and> length (explanations sol) = length notes"
  using assms by (simp add: dpOptimization_def Let_def backtrack_length)

lemma chunkNotes_nonempty:
  "c \<in> set (chunkNotes ns i) \<Longrightarrow> c \<noteq> []"
proof (induction ns i rule: chunkNotes.induct)
  case (1 ns i)
  show ?case
  proof (cases "i < length ns")
    case True
    with "1.prems" have "c = take (min (i + chunkSize) (length ns) - i) (drop i ns)
        \<or> c \<in> set (chunkNotes ns (i + (chunkSize - overlapSize)))"
      by (subst (asm) chunkNotes.simps) (simp add: Let_def)
    then show ?thesis
    proof
      assume "c = take (min (i + chunkSize) (length ns) - i) (drop i ns)"
      with True show ?thesis by (auto simp: chunkSize_def)
    next
      assume "c \<in> set (chunkNotes ns (i + (chunkSize - overlapSize)))"
      with "1.IH" [OF True refl] show ?thesis by simp
    qed
  next
    case False
    with "1.prems" show ?thesis by (subst (asm) chunkNotes.simps) simp
  qed
qed

lemma mapResult_dp_total:
  "(\<And>c. c \<in> set cs \<Longrightarrow> c \<noteq> []) \<Longrightarrow>
   \<exists>sols. mapResult (\<lambda>chunk. dpOptimization level chunk patterns h) cs = Inr sols \<and>
     list_all2 (solves level patterns h) cs sols"
proof (induction cs)
  case Nil
  then show ?case by simp
next
  case (Cons c cs)
  from Cons.prems have "c \<noteq> []" by simp
  from dpOptimization_length [OF this] obtain sol where
    sol: "solves level patterns h c sol" unfolding solves_def by blast
  from Cons obtain sols where
    sols: "mapResult (\<lambda>chunk. dpOptimization level chunk patterns h) cs = Inr sols"
      "list_all2 (solves level patterns h) cs sols"
    by auto
  from sol sols have
    "mapResult (\<lambda>chunk. dpOptimization level chunk patterns h) (c # cs) = Inr (sol # sols)"
    by (simp add: solves_def)
  with sol sols show ?case by auto
qed

lemma solves_dropped_lengths:
  "list_all2 (solves level patterns h) cs sols \<Longrightarrow>
   length (concat (map (\<lambda>s. drop overlapSize (fingering s)) sols))
     = sum_list (map (\<lambda>c. length c - overlapSize) cs) \<and>
   length (concat (map (\<lambda>s. drop overlapSize (explanations s)) sols))
     = sum_list (map (\<lambda>c. length c - overlapSize) cs)"
  by (induction rule: list_all2_induct) (simp_all add: solves_def)

lemma chunkNotes_lengths:
  "sum_list (map (\<lambda>c. length c - overlapSize) (chunkNotes ns i)) = length ns - (i + overlapSize)"
proof (induction ns i rule: chunkNotes.induct)
  case (1 ns i)
  show ?case
  proof (cases "i < length ns")
    case True
    from "1.IH" [OF True refl]
    have IH: "sum_list (map (\<lambda>c. length c - overlapSize)
                (chunkNotes ns (i + (chunkSize - overlapSize))))
              = length ns - (i + (chunkSize - overlapSize) + overlapSize)" .
    show ?thesis
      by (subst chunkNotes.simps) (use True IH in \<open>auto simp: Let_def chunkSize_def overlapSize_def\<close>)
  next
    case False
    then show ?thesis by (subst chunkNotes.simps) simp
  qed
qed

lemma stitch_later:
  "fingering (stitch (Suc i) sols acc)
     = fingering acc @ concat (map (\<lambda>s. drop overlapSize (fingering s)) sols) \<and>
   explanations (stitch (Suc i) sols acc)
     = explanations acc @ concat (map (\<lambda>s. drop overlapSize (explanations s)) sols)"
  by (induction sols arbitrary: i acc) simp_all

lemma stitch_first:
  "fingering (stitch 0 (sol # sols) emptySolution)
     = fingering sol @ concat (map (\<lambda>s. drop overlapSize (fingering s)) sols) \<and>
   explanations (stitch 0 (sol # sols) emptySolution)
     = explanations sol @ concat (map (\<lambda>s. drop overlapSize (explanations s)) sols)"
  by (simp add: stitch_later emptySolution_def)

lemma chunkNotes_first:
  "ns \<noteq> [] \<Longrightarrow>
   chunkNotes ns 0 = take chunkSize ns # chunkNotes ns (chunkSize - overlapSize)"
  by (subst chunkNotes.simps) (auto simp: Let_def min_def)


lemma chunkedOptimization_length:
  assumes "ns \<noteq> []"
  shows "\<exists>sol w. chunkedOptimization level ns patterns h = Inr sol \<and>
    dpOptimization level (take chunkSize ns) patterns h = Inr w \<and>
    length (fingering w) = min chunkSize (length ns) \<and>
    take (length (fingering w)) (fingering sol) = fingering w \<and>
    length (fingering sol) = length ns \<and> length (explanations sol) = length ns"
proof -
  let ?rest = "chunkNotes ns (chunkSize - overlapSize)"
  have cs: "chunkNotes ns 0 = take chunkSize ns # ?rest"
    using assms by (rule chunkNotes_first)
  have "\<And>c. c \<in> set (chunkNotes ns 0) \<Longrightarrow> c \<noteq> []"
    by (rule chunkNotes_nonempty)
  from mapResult_dp_total [of "chunkNotes ns 0" level patterns h, OF this] obtain sols where
    sols: "mapResult (\<lambda>chunk. dpOptimization level chunk patterns h) (chunkNotes ns 0) = Inr sols"
      "list_all2 (solves level patterns h) (chunkNotes ns 0) sols"
    by blast
  from sols(2) cs obtain w ws where
    ws: "sols = w # ws" "solves level patterns h (take chunkSize ns) w"
      "list_all2 (solves level patterns h) ?rest ws"
    by (auto simp: list_all2_Cons1)
  let ?sol = "stitch 0 (w # ws) emptySolution"
  have res: "chunkedOptimization level ns patterns h = Inr ?sol"
    using sols(1) ws(1) by (simp add: chunkedOptimization_def)
  have lw: "length (fingering w) = min chunkSize (length ns)"
       "length (explanations w) = min chunkSize (length ns)"
    using ws(2) by (simp_all add: solves_def min.commute)
  have rest: "sum_list (map (\<lambda>c. length c - overlapSize) ?rest) = length ns - chunkSize"
    using chunkNotes_lengths [of ns "chunkSize - overlapSize"]
    by (simp add: chunkSize_def overlapSize_def)
  have "length (fingering ?sol) = length ns" "length (explanations ?sol) = length ns"
    using solves_dropped_lengths [OF ws(3)] lw rest
    by (simp_all del: stitch.simps add: stitch_first)
  moreover have "take (length (fingering w)) (fingering ?sol) = fingering w"
    by (simp del: stitch.simps add: stitch_first)
  moreover have "dpOptimization level (take chunkSize ns) patterns h = Inr w"
    using ws(2) by (simp add: solves_def)
  ultimately show ?thesis using res lw by blast
qed

lemma planHandFingering_length:
  "\<exists>sol. planHandFingering level ns patterns h = Inr sol \<and>
     length (fingering sol) = length ns \<and> length (explanations sol) = length ns"
proof (cases "ns = []")
  case True
  then show ?thesis by (simp add: planHandFingering_def emptySolution_def)
next
  case False
  show ?thesis
  proof (cases "length ns > 64")
    case True
    with chunkedOptimization_length [OF False, of level patterns h] show ?thesis
      by (auto simp: planHandFingering_def)
  next
    case False
    with dpOptimization_length [OF \<open>ns \<noteq> []\<close>, of level patterns h] \<open>ns \<noteq> []\<close> show ?thesis
      by (auto simp: planHandFingering_def)
  qed
qed

lemma mergeHands_length:
  "mergeHands ns rhSolution lhSolution rhIdx lhIdx = (fs, es) \<Longrightarrow>
   length fs = length ns \<and> length es = length ns"
  by (induction ns arbitrary: rhIdx lhIdx fs es) (auto split: if_splits prod.splits)

text \<open>
  C1. For every note sequence and every list of pattern segments (and every difficulty
  level) \<^verbatim>\<open>planFingering\<close> returns a solution, never an error, whose \<^verbatim>\<open>fingering\<close> and
  \<^verbatim>\<open>explanations\<close> have exactly as many entries as there are notes. The same holds for
  the per-hand planner \<^verbatim>\<open>planHandFingering\<close> on a hand's sequence of any length: for more
  than 64 notes that is the chunked optimiser, whose windows of 32 notes overlapping by 4
  are stitched back to the full length.
\<close>

theorem planFingering_length_preserved:
  "(\<exists>sol. planFingering level ns patterns = Inr sol \<and>
      length (fingering sol) = length ns \<and> length (explanations sol) = length ns) \<and>
   (\<exists>handSol. planHandFingering level ns patterns h = Inr handSol \<and>
      length (fingering handSol) = length ns \<and> length (explanations handSol) = length ns)"
proof
  show "\<exists>handSol. planHandFingering level ns patterns h = Inr handSol \<and>
      length (fingering handSol) = length ns \<and> length (explanations handSol) = length ns"
    by (rule planHandFingering_length)
  show "\<exists>sol. planFingering level ns patterns = Inr sol \<and>
      length (fingering sol) = length ns \<and> length (explanations sol) = length ns"
  proof (cases "ns = []")
    case True
    then show ?thesis by (simp add: planFingering_def emptySolution_def)
  next
    case False
    obtain rhSol where rh: "planHandFingering level (filter (\<lambda>n. hand n = RH) ns) patterns RH = Inr rhSol"
      using planHandFingering_length by blast
    obtain lhSol where lh: "planHandFingering level (filter (\<lambda>n. hand n = LH) ns) patterns LH = Inr lhSol"
      using planHandFingering_length by blast
    obtain fs es where m: "mergeHands ns rhSol lhSol 0 0 = (fs, es)"
      by (cases "mergeHands ns rhSol lhSol 0 0")
    from mergeHands_length [OF m] False rh lh m show ?thesis
      by (simp add: planFingering_def Let_def)
  qed
qed

theorem planFingering_length_preserved_witness:
  "(\<exists>sol. planFingering Intermediate
            (replicate 70 \<lparr>pitch = 60, hand = RH, measureNumber = 1\<rparr>) [] = Inr sol \<and>
      length (fingering sol) = 70 \<and> length (explanations sol) = 70) \<and>
   (\<exists>handSol. planHandFingering Intermediate
            (replicate 70 \<lparr>pitch = 60, hand = RH, measureNumber = 1\<rparr>) [] RH = Inr handSol \<and>
      length (fingering handSol) = 70 \<and> length (explanations handSol) = 70)"
  using planFingering_length_preserved
    [of Intermediate "replicate 70 \<lparr>pitch = 60, hand = RH, measureNumber = 1\<rparr>" "[]" RH]
  by simp

section \<open>The difficulty adjustment and the scale mode\<close>

lemmas cost_defs = computeTransitionCost_def computeScaleTransitionCost_def positionModeCost_def
  positionRules_def rulePosition_def ruleDirection_def ruleSpan_def ruleSameFinger_def
  ruleRepeated_def ruleTransitionWeight_def ruleBlackKey_def ruleScaleContext_def addReason_def
  addCost_def noCost_def getNaturalSpan_def naturalSpans_def transitionWeights_def isBlackKey_def
  jsRem_def expectedFinger_def applyDifficultyAdjustment_def computeInitialCost_def

lemma applyDifficultyAdjustment_multiplier:
  "applyDifficultyAdjustment level c patternContext = difficultyMultiplier level patternContext * c"
  by (cases level) (simp_all add: applyDifficultyAdjustment_def difficultyMultiplier_def)

lemma scale_mode_delegates:
  "isScale pos \<or> patternContext = SCALE \<Longrightarrow>
   computeTransitionCost level p pf c cf patternContext h pos
     = computeScaleTransitionCost pf cf (pitch c - pitch p > 0) h \<bar>pitch c - pitch p\<bar>"
  by (simp add: computeTransitionCost_def Let_def)

lemma ruleScaleContext_idle:
  "patternContext \<noteq> SCALE \<Longrightarrow> ruleScaleContext patternContext h interval pf cf r = r"
  by (simp add: ruleScaleContext_def Let_def)

lemma position_mode_cost:
  "\<not> isScale pos \<Longrightarrow> patternContext \<noteq> SCALE \<Longrightarrow>
   computeTransitionCost level p pf c cf patternContext h pos
     = \<lparr>cost = difficultyMultiplier level patternContext * cost (positionRules p pf c cf h pos),
        reasons = reasons (positionRules p pf c cf h pos)\<rparr>"
  by (simp add: computeTransitionCost_def positionModeCost_def Let_def ruleScaleContext_idle
      applyDifficultyAdjustment_multiplier)

lemma dpTable_first_row:
  "dpTable level ns patterns h hps k ! 0 = initialRow ns h hps"
  by (induction k) (simp_all add: Let_def nth_append dpTable_length)

text \<open>
  C3, as the code has it. A transition cost computed in position mode (the position is
  not flagged \<^verbatim>\<open>isScale\<close> and the pattern context is not SCALE) is the accumulated cost of
  the rules multiplied exactly once by the difficulty factor: 13/10 for a beginner in a
  POLYPHONIC or ORNAMENTED context and 11/10 otherwise, 9/10 for advanced, 1 for
  intermediate. A transition cost computed in scale mode is the scale transition cost
  itself, the same at every level: it is not scaled. The initial-note costs, the first row
  of the table, do not depend on the level.
\<close>

theorem transition_cost_scaling:
  "(isScale pos \<or> patternContext = SCALE \<longrightarrow>
      computeTransitionCost level p pf c cf patternContext h pos
        = computeTransitionCost Intermediate p pf c cf patternContext h pos \<and>
      computeTransitionCost level p pf c cf patternContext h pos
        = computeScaleTransitionCost pf cf (pitch c - pitch p > 0) h \<bar>pitch c - pitch p\<bar>) \<and>
   (\<not> isScale pos \<and> patternContext \<noteq> SCALE \<longrightarrow>
      cost (computeTransitionCost level p pf c cf patternContext h pos)
        = difficultyMultiplier level patternContext * cost (positionRules p pf c cf h pos) \<and>
      cost (computeTransitionCost Intermediate p pf c cf patternContext h pos)
        = cost (positionRules p pf c cf h pos)) \<and>
   dpTable level ns patterns h hps k ! 0 = initialRow ns h hps"
  by (simp add: scale_mode_delegates position_mode_cost dpTable_first_row difficultyMultiplier_def)

theorem transition_cost_scaling_witness:
  "computeTransitionCost Beginner (rhNote 60) 1 (rhNote 62) 2 UNKNOWN RH
       \<lparr>anchorPitch = 60, inPosition = False, isScale = True\<rparr>
     = \<lparr>cost = - 30, reasons = [''Standard scale fingering'']\<rparr> \<and>
   cost (computeTransitionCost Beginner (rhNote 60) 1 (rhNote 62) 2 UNKNOWN RH
       \<lparr>anchorPitch = 60, inPosition = True, isScale = False\<rparr>)
     = 11 / 10 * (- 65)"
  using transition_cost_scaling [of "\<lparr>anchorPitch = 60, inPosition = False, isScale = True\<rparr>"
      UNKNOWN Beginner "rhNote 60" 1 "rhNote 62" 2 RH]
    transition_cost_scaling [of "\<lparr>anchorPitch = 60, inPosition = True, isScale = False\<rparr>"
      UNKNOWN Beginner "rhNote 60" 1 "rhNote 62" 2 RH]
  by (simp add: cost_defs difficultyMultiplier_def rhNote_def Let_def)

text \<open>The claim as stated fails for a beginner on the scale-mode transition from finger 1
  on pitch 60 to finger 2 on pitch 62: the cost is \<open>-30\<close>, not \<open>-30\<close> times 11/10.\<close>

theorem scale_mode_unscaled_counterexample:
  "cost (computeTransitionCost Beginner (rhNote 60) 1 (rhNote 62) 2 UNKNOWN RH
           \<lparr>anchorPitch = 60, inPosition = False, isScale = True\<rparr>) = - 30 \<and>
   difficultyMultiplier Beginner UNKNOWN * cost (computeScaleTransitionCost 1 2 True RH 2) = - 33 \<and>
   cost (computeTransitionCost Beginner (rhNote 60) 1 (rhNote 62) 2 UNKNOWN RH
           \<lparr>anchorPitch = 60, inPosition = False, isScale = True\<rparr>)
     \<noteq> difficultyMultiplier Beginner UNKNOWN * cost (computeScaleTransitionCost 1 2 True RH 2)"
  by (simp add: cost_defs difficultyMultiplier_def rhNote_def Let_def)

text \<open>
  C9, as the code has it. When the pattern context of a transition is SCALE, the
  transition cost is the scale transition cost alone, whether or not the position is
  flagged \<^verbatim>\<open>isScale\<close>; the rules of the position mode are not applied. In position mode
  (context other than SCALE, position not flagged) the cost is the adjusted sum of the
  rules up to the black-key rule, and RULE 8 adds nothing. The four idiomatic crossings
  (RH ascending 3 to 1, LH ascending 1 to 3, RH descending 1 to 3, LH descending 3 to 1)
  over at most 6 semitones cost \<open>-30\<close> in SCALE context, as standard scale fingering.
\<close>

theorem scale_context_delegates:
  "computeTransitionCost level p pf c cf SCALE h pos
     = computeScaleTransitionCost pf cf (pitch c - pitch p > 0) h \<bar>pitch c - pitch p\<bar> \<and>
   (\<not> isScale pos \<and> patternContext \<noteq> SCALE \<longrightarrow>
      computeTransitionCost level p pf c cf patternContext h pos
        = \<lparr>cost = applyDifficultyAdjustment level (cost (positionRules p pf c cf h pos)) patternContext,
           reasons = reasons (positionRules p pf c cf h pos)\<rparr>) \<and>
   (pitch p < pitch c \<and> pitch c - pitch p \<le> 6 \<longrightarrow>
      computeTransitionCost level p 3 c 1 SCALE RH pos
        = \<lparr>cost = - 30, reasons = [''Standard scale fingering'']\<rparr> \<and>
      computeTransitionCost level p 1 c 3 SCALE LH pos
        = \<lparr>cost = - 30, reasons = [''Standard scale fingering'']\<rparr>) \<and>
   (pitch c < pitch p \<and> pitch p - pitch c \<le> 6 \<longrightarrow>
      computeTransitionCost level p 1 c 3 SCALE RH pos
        = \<lparr>cost = - 30, reasons = [''Standard scale fingering'']\<rparr> \<and>
      computeTransitionCost level p 3 c 1 SCALE LH pos
        = \<lparr>cost = - 30, reasons = [''Standard scale fingering'']\<rparr>)"
proof (intro conjI impI)
  show "computeTransitionCost level p pf c cf SCALE h pos
     = computeScaleTransitionCost pf cf (pitch c - pitch p > 0) h \<bar>pitch c - pitch p\<bar>"
    by (simp add: scale_mode_delegates)
next
  assume "\<not> isScale pos \<and> patternContext \<noteq> SCALE"
  then show "computeTransitionCost level p pf c cf patternContext h pos
        = \<lparr>cost = applyDifficultyAdjustment level (cost (positionRules p pf c cf h pos)) patternContext,
           reasons = reasons (positionRules p pf c cf h pos)\<rparr>"
    by (simp add: position_mode_cost applyDifficultyAdjustment_multiplier)
next
  assume a: "pitch p < pitch c \<and> pitch c - pitch p \<le> 6"
  then show "computeTransitionCost level p 3 c 1 SCALE RH pos
        = \<lparr>cost = - 30, reasons = [''Standard scale fingering'']\<rparr>"
    by (simp add: scale_mode_delegates computeScaleTransitionCost_def Let_def addReason_def
        noCost_def getNaturalSpan_def naturalSpans_def)
  from a show "computeTransitionCost level p 1 c 3 SCALE LH pos
        = \<lparr>cost = - 30, reasons = [''Standard scale fingering'']\<rparr>"
    by (simp add: scale_mode_delegates computeScaleTransitionCost_def Let_def addReason_def
        noCost_def getNaturalSpan_def naturalSpans_def)
next
  assume a: "pitch c < pitch p \<and> pitch p - pitch c \<le> 6"
  then show "computeTransitionCost level p 1 c 3 SCALE RH pos
        = \<lparr>cost = - 30, reasons = [''Standard scale fingering'']\<rparr>"
    by (simp add: scale_mode_delegates computeScaleTransitionCost_def Let_def addReason_def
        noCost_def getNaturalSpan_def naturalSpans_def)
  from a show "computeTransitionCost level p 3 c 1 SCALE LH pos
        = \<lparr>cost = - 30, reasons = [''Standard scale fingering'']\<rparr>"
    by (simp add: scale_mode_delegates computeScaleTransitionCost_def Let_def addReason_def
        noCost_def getNaturalSpan_def naturalSpans_def)
qed

theorem scale_context_delegates_witness:
  "computeTransitionCost Intermediate (rhNote 64) 3 (rhNote 65) 1 SCALE RH
       \<lparr>anchorPitch = 60, inPosition = True, isScale = False\<rparr>
     = \<lparr>cost = - 30, reasons = [''Standard scale fingering'']\<rparr> \<and>
   computeTransitionCost Intermediate (rhNote 65) 1 (rhNote 64) 3 SCALE RH
       \<lparr>anchorPitch = 60, inPosition = True, isScale = False\<rparr>
     = \<lparr>cost = - 30, reasons = [''Standard scale fingering'']\<rparr> \<and>
   computeTransitionCost Intermediate (rhNote 64) 3 (rhNote 65) 1 UNKNOWN RH
       \<lparr>anchorPitch = 60, inPosition = True, isScale = False\<rparr>
     = \<lparr>cost = 54, reasons = [''Wrong finger for position'']\<rparr>"
  using scale_context_delegates [of Intermediate "rhNote 64" 3 "rhNote 65" 1 RH
      "\<lparr>anchorPitch = 60, inPosition = True, isScale = False\<rparr>" UNKNOWN]
    scale_context_delegates [of Intermediate "rhNote 65" 1 "rhNote 64" 3 RH
      "\<lparr>anchorPitch = 60, inPosition = True, isScale = False\<rparr>" UNKNOWN]
  by (simp add: cost_defs rhNote_def Let_def)

text \<open>The claim as stated fails on the RH transition from finger 3 on pitch 64 to finger 1
  on pitch 65 in SCALE context with an unflagged position anchored at 60: the cost is the
  scale cost \<open>-30\<close>, while the rules of the position mode together with the \<open>-20\<close> of
  RULE 8 would give 34.\<close>

theorem scale_context_bonus_counterexample:
  "cost (computeTransitionCost Intermediate (rhNote 64) 3 (rhNote 65) 1 SCALE RH
           \<lparr>anchorPitch = 60, inPosition = True, isScale = False\<rparr>) = - 30 \<and>
   cost (positionModeCost Intermediate (rhNote 64) 3 (rhNote 65) 1 SCALE RH
           \<lparr>anchorPitch = 60, inPosition = True, isScale = False\<rparr>) = 34 \<and>
   computeTransitionCost Intermediate (rhNote 64) 3 (rhNote 65) 1 SCALE RH
       \<lparr>anchorPitch = 60, inPosition = True, isScale = False\<rparr>
     \<noteq> positionModeCost Intermediate (rhNote 64) 3 (rhNote 65) 1 SCALE RH
         \<lparr>anchorPitch = 60, inPosition = True, isScale = False\<rparr>"
  by (simp add: cost_defs rhNote_def Let_def)

section \<open>The pattern context of a note\<close>

lemma firstByMeasure_find:
  "firstByMeasure note patterns = map_option patternType (find (containsMeasure note) patterns)"
  by (induction patterns) (simp_all add: containsMeasure_def)

lemma firstByIndex_find:
  "firstByIndex index patterns = map_option patternType (find (containsIndex index) patterns)"
  by (induction patterns) (simp_all add: containsIndex_def)

lemma getPatternContext_firstMatch:
  "getPatternContext ns index patterns = firstMatchContext (ns ! index) index patterns"
  by (simp add: getPatternContext_def firstMatchContext_def firstByMeasure_find firstByIndex_find
      split: option.splits)

lemma chunkNotes_nth:
  "k < length (chunkNotes ns i) \<Longrightarrow>
   chunkNotes ns i ! k = take chunkSize (drop (i + (chunkSize - overlapSize) * k) ns)"
proof (induction ns i arbitrary: k rule: chunkNotes.induct)
  case (1 ns i)
  show ?case
  proof (cases "i < length ns")
    case True
    have unfold: "chunkNotes ns i
        = take (min (i + chunkSize) (length ns) - i) (drop i ns)
          # chunkNotes ns (i + (chunkSize - overlapSize))"
      using True by (subst chunkNotes.simps) (simp add: Let_def)
    show ?thesis
    proof (cases k)
      case 0
      then show ?thesis using unfold by (auto simp: min_def)
    next
      case (Suc k')
      with "1.prems" unfold have "k' < length (chunkNotes ns (i + (chunkSize - overlapSize)))"
        by simp
      from "1.IH" [OF True refl this] Suc unfold show ?thesis
        by (simp add: chunkSize_def overlapSize_def add.assoc)
    qed
  next
    case False
    with "1.prems" show ?thesis by (subst (asm) chunkNotes.simps) simp
  qed
qed

section \<open>Classification as a scale\<close>

lemma scaleScan_counts:
  "scaleScan ns (sc, sd, ld)
     = (sc + length (filter stepwise (intervals ns)),
        sd + signRepeats (filter stepwise (intervals ns)) ld,
        fold (\<lambda>d l. sgn d) (filter stepwise (intervals ns)) ld)"
proof (induction ns "(sc, sd, ld)" arbitrary: sc sd ld rule: scaleScan.induct)
  case (1 a b rest stepwiseCount sameDirection lastDirection)
  show ?case
  proof (cases "stepwise (pitch b - pitch a)")
    case True
    then have nz: "sgn (pitch b - pitch a) \<noteq> 0" by (auto simp: stepwise_def sgn_if)
    from True have c: "\<bar>pitch b - pitch a\<bar> = 1 \<or> \<bar>pitch b - pitch a\<bar> = 2"
      by (simp add: stepwise_def)
    show ?thesis
      using "1.hyps"(1) [OF refl refl c refl] True nz c
      by (simp add: intervals_def Let_def)
  next
    case False
    then have c: "\<not> (\<bar>pitch b - pitch a\<bar> = 1 \<or> \<bar>pitch b - pitch a\<bar> = 2)"
      by (simp add: stepwise_def)
    show ?thesis
      using "1.hyps"(2) [OF refl refl c] False c
      by (simp add: intervals_def Let_def)
  qed
qed (simp_all add: intervals_def)

lemma maxPitch_Max: "ps \<noteq> [] \<Longrightarrow> maxPitch ps = Max (set ps)"
  by (cases ps) (simp_all add: maxPitch_def Max.set_eq_fold [symmetric])

lemma minPitch_Min: "ps \<noteq> [] \<Longrightarrow> minPitch ps = Min (set ps)"
  by (cases ps) (simp_all add: minPitch_def Min.set_eq_fold [symmetric])


lemma detectScalePattern_iff:
  "detectScalePattern ns \<longleftrightarrow>
     length ns \<ge> 8 \<and>
     (of_nat (length (filter stepwise (intervals ns))) :: rat) / of_nat (length ns - 1) > 8 / 10 \<and>
     (of_nat (stepRepeats ns) :: rat) / of_nat (length ns - 2) > 6 / 10 \<and>
     Max (pitch ` set ns) - Min (pitch ` set ns) > 7"
proof (cases "length ns < 8")
  case True
  then show ?thesis by (simp add: detectScalePattern_def)
next
  case False
  then have ne: "map pitch ns \<noteq> []" by auto
  from False show ?thesis
    by (simp add: detectScalePattern_def scaleScan_counts Let_def stepRepeats_def
        maxPitch_Max [OF ne] minPitch_Min [OF ne])
qed

lemma scale_positions:
  "detectScalePattern ns \<Longrightarrow>
   analyzeHandPositions ns h
     = replicate (length ns) \<lparr>anchorPitch = pitch (hd ns), inPosition = False, isScale = True\<rparr>"
  by (cases ns) (auto simp: analyzeHandPositions_def detectScalePattern_def)

text \<open>
  C4, as the code has it. A hand's sequence of \<open>n\<close> notes is classified as a scale if and
  only if \<open>n \<ge> 8\<close>, more than 0.8 of the \<open>n - 1\<close> consecutive pairs are stepwise (absolute
  pitch interval 1 or 2), the number of stepwise pairs that move in the direction of the
  stepwise pair before them, divided by \<open>n - 2\<close>, exceeds 0.6, and the highest pitch
  exceeds the lowest by more than 7. Pairs that are not stepwise are neither counted nor
  remembered as a direction. When the sequence is classified as a scale, every note's
  position is the pitch of the first note as anchor, \<^verbatim>\<open>inPosition\<close> false, \<^verbatim>\<open>isScale\<close> true.
\<close>

theorem scale_detection:
  "(detectScalePattern ns \<longleftrightarrow>
      length ns \<ge> 8 \<and>
      (of_nat (length (filter stepwise (intervals ns))) :: rat) / of_nat (length ns - 1) > 8 / 10 \<and>
      (of_nat (stepRepeats ns) :: rat) / of_nat (length ns - 2) > 6 / 10 \<and>
      Max (pitch ` set ns) - Min (pitch ` set ns) > 7) \<and>
   (detectScalePattern ns \<longrightarrow>
      analyzeHandPositions ns h
        = replicate (length ns)
            \<lparr>anchorPitch = pitch (hd ns), inPosition = False, isScale = True\<rparr>)"
  using detectScalePattern_iff [of ns] scale_positions [of ns h] by blast

lemma cMajorScale_detected: "detectScalePattern cMajorScale"
  by (simp add: detectScalePattern_def cMajorScale_def rhNote_def Let_def maxPitch_def minPitch_def)

theorem scale_detection_witness:
  "detectScalePattern cMajorScale \<and>
   length (filter stepwise (intervals cMajorScale)) = 9 \<and> stepRepeats cMajorScale = 8 \<and>
   analyzeHandPositions cMajorScale RH
     = replicate 10 \<lparr>anchorPitch = 60, inPosition = False, isScale = True\<rparr>"
proof -
  have d: "detectScalePattern cMajorScale"
    by (rule cMajorScale_detected)
  with scale_detection [of cMajorScale RH]
  have "analyzeHandPositions cMajorScale RH
     = replicate (length cMajorScale)
         \<lparr>anchorPitch = pitch (hd cMajorScale), inPosition = False, isScale = True\<rparr>"
    by blast
  then have "analyzeHandPositions cMajorScale RH
     = replicate 10 \<lparr>anchorPitch = 60, inPosition = False, isScale = True\<rparr>"
    by (simp add: cMajorScale_def rhNote_def eval_nat_numeral)
  moreover have "length (filter stepwise (intervals cMajorScale)) = 9 \<and> stepRepeats cMajorScale = 8"
    by (simp add: cMajorScale_def rhNote_def intervals_def stepwise_def stepRepeats_def)
  ultimately show ?thesis using d by blast
qed

text \<open>The claim as stated fails on the pitches 60, 62, 64, 66, 68, 70, 75, 74, 73, 74, 73:
  nine of the ten pairs are stepwise and the range is 15. Six of the interval signs repeat
  the previous sign, the leap from 70 to 75 among them, which is more than 0.6 of 9; the
  code counts only five, leaving the leap out, and does not classify the run as a scale.\<close>

theorem scale_detection_leap_counterexample:
  "scaleBySpec leapRun \<and> \<not> detectScalePattern leapRun"
  by (simp add: scaleBySpec_def detectScalePattern_def leapRun_def rhNote_def intervals_def
      stepwise_def Let_def maxPitch_def minPitch_def)

section \<open>The boundary between the two optimisers\<close>

text \<open>
  C6. A hand of exactly 64 notes is planned by the DP optimiser on the whole sequence. A
  hand of 65 notes is planned by the chunked optimiser: the result has 65 fingers, and its
  first 4 fingers are the first 4 fingers that the DP optimiser returns for the first
  window, the first 32 notes.
\<close>

theorem chunk_boundary:
  "(length ns = 64 \<longrightarrow>
      planHandFingering level ns patterns h = dpOptimization level ns patterns h) \<and>
   (length ns = 65 \<longrightarrow>
      (\<exists>sol w. planHandFingering level ns patterns h = Inr sol \<and>
         planHandFingering level ns patterns h = chunkedOptimization level ns patterns h \<and>
         hd (chunkNotes ns 0) = take 32 ns \<and>
         dpOptimization level (take 32 ns) patterns h = Inr w \<and>
         length (fingering sol) = 65 \<and>
         take 4 (fingering sol) = take 4 (fingering w)))"
proof (intro conjI impI)
  assume "length ns = 64"
  then show "planHandFingering level ns patterns h = dpOptimization level ns patterns h"
    by (simp add: planHandFingering_def)
next
  assume n: "length ns = 65"
  then have ne: "ns \<noteq> []" by auto
  from chunkedOptimization_length [OF ne, of level patterns h] obtain sol w where
    sol: "chunkedOptimization level ns patterns h = Inr sol"
      "dpOptimization level (take chunkSize ns) patterns h = Inr w"
      "length (fingering w) = min chunkSize (length ns)"
      "take (length (fingering w)) (fingering sol) = fingering w"
      "length (fingering sol) = length ns"
    by blast
  have plan: "planHandFingering level ns patterns h = chunkedOptimization level ns patterns h"
    using n by (simp add: planHandFingering_def)
  have lw: "length (fingering w) = 32"
    using sol(3) n by (simp add: chunkSize_def)
  have "take 4 (take 32 (fingering sol)) = take 4 (fingering w)"
    using sol(4) lw by simp
  then have t: "take 4 (fingering sol) = take 4 (fingering w)"
    by simp
  have "hd (chunkNotes ns 0) = take 32 ns"
    using chunkNotes_first [OF ne] by (simp add: chunkSize_def)
  with sol plan n t show "\<exists>sol w. planHandFingering level ns patterns h = Inr sol \<and>
         planHandFingering level ns patterns h = chunkedOptimization level ns patterns h \<and>
         hd (chunkNotes ns 0) = take 32 ns \<and>
         dpOptimization level (take 32 ns) patterns h = Inr w \<and>
         length (fingering sol) = 65 \<and>
         take 4 (fingering sol) = take 4 (fingering w)"
    by (auto simp: chunkSize_def)
qed

theorem chunk_boundary_witness:
  "planHandFingering Intermediate (replicate 64 (rhNote 60)) [] RH
     = dpOptimization Intermediate (replicate 64 (rhNote 60)) [] RH \<and>
   (\<exists>sol w. planHandFingering Intermediate longHand [] RH = Inr sol \<and>
      planHandFingering Intermediate longHand [] RH = chunkedOptimization Intermediate longHand [] RH \<and>
      hd (chunkNotes longHand 0) = take 32 longHand \<and>
      dpOptimization Intermediate (take 32 longHand) [] RH = Inr w \<and>
      length (fingering sol) = 65 \<and>
      take 4 (fingering sol) = take 4 (fingering w))"
proof -
  have a: "length (replicate 64 (rhNote 60)) = 64" by simp
  have b: "length longHand = 65" by (simp add: longHand_def)
  from chunk_boundary [of "replicate 64 (rhNote 60)" Intermediate "[]" RH] a
  have "planHandFingering Intermediate (replicate 64 (rhNote 60)) [] RH
     = dpOptimization Intermediate (replicate 64 (rhNote 60)) [] RH"
    by blast
  moreover from chunk_boundary [of longHand Intermediate "[]" RH] b
  have "\<exists>sol w. planHandFingering Intermediate longHand [] RH = Inr sol \<and>
      planHandFingering Intermediate longHand [] RH = chunkedOptimization Intermediate longHand [] RH \<and>
      hd (chunkNotes longHand 0) = take 32 longHand \<and>
      dpOptimization Intermediate (take 32 longHand) [] RH = Inr w \<and>
      length (fingering sol) = 65 \<and>
      take 4 (fingering sol) = take 4 (fingering w)"
    by blast
  ultimately show ?thesis by blast
qed

section \<open>Independence of the hands\<close>

lemma handPart_Cons:
  "handPart h (n # ns) (x # xs) = (if hand n = h then x # handPart h ns xs else handPart h ns xs)"
  by (simp add: handPart_def)

lemma handPart_none:
  "filter (\<lambda>n. hand n = h) ns = [] \<Longrightarrow> handPart h ns xs = []"
proof (induction ns arbitrary: xs)
  case Nil
  then show ?case by (simp add: handPart_def)
next
  case (Cons n ns)
  then show ?case by (cases xs) (auto simp: handPart_def split: if_splits)
qed

lemma mergeHands_parts:
  "mergeHands ns rhSolution lhSolution rhIdx lhIdx = (fs, es) \<Longrightarrow>
   handPart RH ns fs
     = map (\<lambda>j. fingerOr3 (fingering rhSolution) (rhIdx + j))
         [0 ..< length (filter (\<lambda>n. hand n = RH) ns)] \<and>
   handPart RH ns es
     = map (\<lambda>j. explanationOrEmpty (explanations rhSolution) (rhIdx + j))
         [0 ..< length (filter (\<lambda>n. hand n = RH) ns)] \<and>
   handPart LH ns fs
     = map (\<lambda>j. fingerOr3 (fingering lhSolution) (lhIdx + j))
         [0 ..< length (filter (\<lambda>n. hand n = LH) ns)] \<and>
   handPart LH ns es
     = map (\<lambda>j. explanationOrEmpty (explanations lhSolution) (lhIdx + j))
         [0 ..< length (filter (\<lambda>n. hand n = LH) ns)]"
proof (induction ns arbitrary: rhIdx lhIdx fs es)
  case Nil
  then show ?case by (simp add: handPart_def)
next
  case (Cons n ns)
  show ?case
  proof (cases "hand n")
    case RH
    obtain fs' es' where m: "mergeHands ns rhSolution lhSolution (Suc rhIdx) lhIdx = (fs', es')"
      by (cases "mergeHands ns rhSolution lhSolution (Suc rhIdx) lhIdx")
    with Cons.prems RH have fs: "fs = fingerOr3 (fingering rhSolution) rhIdx # fs'"
      and es: "es = explanationOrEmpty (explanations rhSolution) rhIdx # es'"
      by auto
    from Cons.IH [OF m] RH show ?thesis
      by (simp add: fs es handPart_Cons map_upt_Suc del: upt_Suc)
  next
    case LH
    obtain fs' es' where m: "mergeHands ns rhSolution lhSolution rhIdx (Suc lhIdx) = (fs', es')"
      by (cases "mergeHands ns rhSolution lhSolution rhIdx (Suc lhIdx)")
    with Cons.prems LH have fs: "fs = fingerOr3 (fingering lhSolution) lhIdx # fs'"
      and es: "es = explanationOrEmpty (explanations lhSolution) lhIdx # es'"
      by auto
    from Cons.IH [OF m] LH show ?thesis
      by (simp add: fs es handPart_Cons map_upt_Suc del: upt_Suc)
  qed
qed

lemma planFingering_hand_part:
  "\<exists>sol handSol. planFingering level ns patterns = Inr sol \<and>
     planHandFingering level (filter (\<lambda>n. hand n = h) ns) patterns h = Inr handSol \<and>
     (handPart h ns (fingering sol), handPart h ns (explanations sol))
       = handView handSol (length (filter (\<lambda>n. hand n = h) ns))"
proof (cases "ns = []")
  case True
  then show ?thesis
    by (simp add: planFingering_def planHandFingering_def emptySolution_def handPart_def handView_def)
next
  case False
  obtain rhSol where rh: "planHandFingering level (filter (\<lambda>n. hand n = RH) ns) patterns RH = Inr rhSol"
    using planHandFingering_length by blast
  obtain lhSol where lh: "planHandFingering level (filter (\<lambda>n. hand n = LH) ns) patterns LH = Inr lhSol"
    using planHandFingering_length by blast
  obtain fs es where m: "mergeHands ns rhSol lhSol 0 0 = (fs, es)"
    by (cases "mergeHands ns rhSol lhSol 0 0")
  let ?sol = "\<lparr>fingering = fs, totalCost = costPlus (totalCost rhSol) (totalCost lhSol),
               path = path rhSol @ path lhSol, explanations = es\<rparr>"
  have plan: "planFingering level ns patterns = Inr ?sol"
    using False rh lh m by (simp add: planFingering_def Let_def)
  from mergeHands_parts [OF m] rh lh plan show ?thesis
    by (cases h) (simp_all add: handView_def)
qed

text \<open>
  C8. Two inputs to \<^verbatim>\<open>planFingering\<close> with the same pattern segments and difficulty level
  whose notes of one hand are the same, in the same order, get the same fingers and the
  same explanations on the notes of that hand, whatever the notes of the other hand are
  and wherever they are interleaved. This holds for the right hand and for the left.
\<close>

theorem hand_independence:
  assumes "filter (\<lambda>n. hand n = h) ns = filter (\<lambda>n. hand n = h) ns'"
  shows "\<exists>sol sol'. planFingering level ns patterns = Inr sol \<and>
     planFingering level ns' patterns = Inr sol' \<and>
     handPart h ns (fingering sol) = handPart h ns' (fingering sol') \<and>
     handPart h ns (explanations sol) = handPart h ns' (explanations sol')"
proof -
  from planFingering_hand_part [of level ns patterns h] obtain sol handSol where
    a: "planFingering level ns patterns = Inr sol"
       "planHandFingering level (filter (\<lambda>n. hand n = h) ns) patterns h = Inr handSol"
       "(handPart h ns (fingering sol), handPart h ns (explanations sol))
          = handView handSol (length (filter (\<lambda>n. hand n = h) ns))"
    by blast
  from planFingering_hand_part [of level ns' patterns h] obtain sol' handSol' where
    b: "planFingering level ns' patterns = Inr sol'"
       "planHandFingering level (filter (\<lambda>n. hand n = h) ns') patterns h = Inr handSol'"
       "(handPart h ns' (fingering sol'), handPart h ns' (explanations sol'))
          = handView handSol' (length (filter (\<lambda>n. hand n = h) ns'))"
    by blast
  from a(2) b(2) assms have "handSol = handSol'" by simp
  with a(3) b(3) assms have
    "(handPart h ns (fingering sol), handPart h ns (explanations sol))
       = (handPart h ns' (fingering sol'), handPart h ns' (explanations sol'))"
    by simp
  with a(1) b(1) show ?thesis by blast
qed

theorem hand_independence_witness:
  "filter (\<lambda>n. hand n = RH) [rhNote 60, lhNote 40, rhNote 62]
     = filter (\<lambda>n. hand n = RH) [lhNote 50, rhNote 60, rhNote 62, lhNote 30] \<and>
   (\<exists>sol sol'. planFingering Intermediate [rhNote 60, lhNote 40, rhNote 62] [] = Inr sol \<and>
      planFingering Intermediate [lhNote 50, rhNote 60, rhNote 62, lhNote 30] [] = Inr sol' \<and>
      handPart RH [rhNote 60, lhNote 40, rhNote 62] (fingering sol)
        = handPart RH [lhNote 50, rhNote 60, rhNote 62, lhNote 30] (fingering sol') \<and>
      handPart RH [rhNote 60, lhNote 40, rhNote 62] (explanations sol)
        = handPart RH [lhNote 50, rhNote 60, rhNote 62, lhNote 30] (explanations sol'))"
proof -
  have f: "filter (\<lambda>n. hand n = RH) [rhNote 60, lhNote 40, rhNote 62]
     = filter (\<lambda>n. hand n = RH) [lhNote 50, rhNote 60, rhNote 62, lhNote 30]"
    by (simp add: rhNote_def lhNote_def)
  from hand_independence [OF f, of Intermediate "[]"] f show ?thesis
    by blast
qed

section \<open>Rows without a reachable cell\<close>

lemma relaxEdge_pruned:
  "cost (computeTransitionCost level prevNote fromFinger currNote toFinger patternContext h pos) > 300 \<Longrightarrow>
   relaxEdge level prevRow prevNote currNote toFinger patternContext h pos i fromFinger best = best"
  by (simp add: relaxEdge_def Let_def split: option.splits)

lemma relaxEdge_no_cell:
  "map_of prevRow fromFinger = None \<Longrightarrow>
   relaxEdge level prevRow prevNote currNote toFinger patternContext h pos i fromFinger best = best"
  by (simp add: relaxEdge_def)

lemma fold_relaxEdge_idle:
  "(\<And>fromFinger. fromFinger \<in> set fs \<Longrightarrow>
      relaxEdge level prevRow prevNote currNote toFinger patternContext h pos i fromFinger best = best) \<Longrightarrow>
   fold (relaxEdge level prevRow prevNote currNote toFinger patternContext h pos i) fs best = best"
  by (induction fs) simp_all

lemma bestCell_no_edge:
  assumes "\<And>fromFinger. fromFinger \<in> set fingers \<Longrightarrow>
      map_of prevRow fromFinger = None \<or>
      cost (computeTransitionCost level prevNote fromFinger currNote toFinger patternContext h pos) > 300"
  shows "bestCell level prevRow prevNote currNote patternContext h pos i toFinger = []"
proof -
  have "fold (relaxEdge level prevRow prevNote currNote toFinger patternContext h pos i) fingers
          (Infinity, None, []) = (Infinity, None, [])"
  proof (rule fold_relaxEdge_idle)
    fix fromFinger assume "fromFinger \<in> set fingers"
    from assms [OF this]
    show "relaxEdge level prevRow prevNote currNote toFinger patternContext h pos i fromFinger
            (Infinity, None, []) = (Infinity, None, [])"
      by (elim disjE) (simp_all add: relaxEdge_pruned relaxEdge_no_cell)
  qed
  then show ?thesis by (simp add: bestCell_def)
qed

lemma dpRow_all_pruned:
  assumes "\<forall>fromFinger \<in> set fingers. \<forall>toFinger \<in> set fingers.
      cost (computeTransitionCost level (ns ! (j - 1)) fromFinger (ns ! j) toFinger
              (getPatternContext ns j patterns) h (hps ! j)) > 300"
  shows "dpRow level ns patterns h hps prevRow j = []"
proof -
  have "bestCell level prevRow (ns ! (j - 1)) (ns ! j) (getPatternContext ns j patterns) h (hps ! j) j
          toFinger = []" if "toFinger \<in> set fingers" for toFinger
    using assms that by (intro bestCell_no_edge) auto
  then show ?thesis by (simp add: dpRow_def Let_def)
qed

lemma dpRow_after_empty:
  "dpRow level ns patterns h hps [] i = []"
proof -
  have "bestCell level [] (ns ! (i - 1)) (ns ! i) (getPatternContext ns i patterns) h (hps ! i) i
          toFinger = []" for toFinger
    by (intro bestCell_no_edge) simp
  then show ?thesis by (simp add: dpRow_def Let_def)
qed

lemma dpTable_prefix:
  "i \<le> k \<Longrightarrow> dpTable level ns patterns h hps (Suc k) ! i = dpTable level ns patterns h hps k ! i"
  by (simp add: Let_def nth_append dpTable_length)

lemma dpTable_row:
  "i \<le> k \<Longrightarrow> dpTable level ns patterns h hps k ! i = dpTable level ns patterns h hps i ! i"
proof (induction k)
  case 0
  then show ?case by simp
next
  case (Suc k)
  show ?case
  proof (cases "i = Suc k")
    case True
    then show ?thesis by simp
  next
    case False
    with Suc.prems have "i \<le> k" by simp
    with Suc.IH show ?thesis by (simp only: dpTable_prefix)
  qed
qed

lemma dpTable_step:
  "Suc i \<le> k \<Longrightarrow>
   dpTable level ns patterns h hps k ! Suc i
     = dpRow level ns patterns h hps (dpTable level ns patterns h hps k ! i) (Suc i)"
proof -
  assume le: "Suc i \<le> k"
  have "dpTable level ns patterns h hps k ! Suc i = dpTable level ns patterns h hps (Suc i) ! Suc i"
    using le by (rule dpTable_row)
  also have "\<dots> = dpRow level ns patterns h hps (dpTable level ns patterns h hps i ! i) (Suc i)"
    by (simp add: Let_def nth_append dpTable_length)
  also have "dpTable level ns patterns h hps i ! i = dpTable level ns patterns h hps k ! i"
    using le by (simp add: dpTable_row [of i k])
  finally show ?thesis .
qed

lemma dpTable_empty_onwards:
  assumes "dpTable level ns patterns h hps k ! j = []" and "j \<le> i" and "i \<le> k"
  shows "dpTable level ns patterns h hps k ! i = []"
  using assms(2,3)
proof (induction i)
  case 0
  with assms(1) show ?case by simp
next
  case (Suc i)
  show ?case
  proof (cases "j = Suc i")
    case True
    with assms(1) show ?thesis by simp
  next
    case False
    with Suc.prems have "j \<le> i" "i \<le> k" by simp_all
    with Suc.IH have "dpTable level ns patterns h hps k ! i = []" by simp
    with Suc.prems(2) show ?thesis by (simp add: dpTable_step dpRow_after_empty)
  qed
qed

lemma walkBack_over_empty_rows:
  assumes "\<And>i. j \<le> i \<Longrightarrow> i < k \<Longrightarrow> dp ! i = []" and "j \<le> k"
  shows "fst (walkBack dp ns h k cur) = fst (walkBack dp ns h j cur) @ replicate (k - j) cur \<and>
         fst (snd (walkBack dp ns h k cur))
           = fst (snd (walkBack dp ns h j cur)) @ replicate (k - j) []"
  using assms
proof (induction k)
  case 0
  then show ?case by simp
next
  case (Suc k)
  show ?case
  proof (cases "j = Suc k")
    case True
    then show ?thesis by simp
  next
    case False
    with Suc.prems have jk: "j \<le> k" by simp
    from Suc.prems(1) [of k] jk have row: "dp ! k = []" by simp
    have IH: "fst (walkBack dp ns h k cur) = fst (walkBack dp ns h j cur) @ replicate (k - j) cur \<and>
         fst (snd (walkBack dp ns h k cur))
           = fst (snd (walkBack dp ns h j cur)) @ replicate (k - j) []"
      using Suc.IH Suc.prems(1) jk by simp
    have s: "Suc k - j = Suc (k - j)" using jk by simp
    obtain fs es ps where w: "walkBack dp ns h k cur = (fs, es, ps)"
      by (cases "walkBack dp ns h k cur")
    have "fst (walkBack dp ns h (Suc k) cur) = fs @ [cur]"
         "fst (snd (walkBack dp ns h (Suc k) cur)) = es @ [[]]"
      using row w by (simp_all add: Let_def)
    with IH w show ?thesis
      by (simp add: s replicate_append_same)
  qed
qed

lemma walkBack_last:
  "fst (walkBack dp ns h (Suc i) cur) ! i = cur"
  by (simp add: Let_def split: prod.splits)
     (metis length_0_conv nth_append_length walkBack_length)

lemma bestFinal_empty: "bestFinal [] = (Infinity, 3)"
  by (simp add: bestFinal_def)

lemma fold_pickFinal_min:
  "\<exists>m' f'. fold pickFinal row (Fin m, f) = (Fin m', f') \<and> m' \<le> m \<and>
      (\<forall>(g, c) \<in> set row. m' \<le> cellCost c) \<and>
      ((m' = m \<and> f' = f) \<or> (\<exists>c. (f', c) \<in> set row \<and> cellCost c = m'))"
proof (induction row arbitrary: m f)
  case Nil
  then show ?case by simp
next
  case (Cons e row)
  show ?case
  proof (cases "cellCost (snd e) < m")
    case True
    from Cons.IH [of "cellCost (snd e)" "fst e"] obtain m' f' where
      r: "fold pickFinal row (Fin (cellCost (snd e)), fst e) = (Fin m', f')"
         "m' \<le> cellCost (snd e)" "\<forall>(g, c) \<in> set row. m' \<le> cellCost c"
         "(m' = cellCost (snd e) \<and> f' = fst e) \<or> (\<exists>c. (f', c) \<in> set row \<and> cellCost c = m')"
      by blast
    have "fold pickFinal (e # row) (Fin m, f) = (Fin m', f')"
      using True r(1) by (simp add: pickFinal_def)
    moreover have "m' \<le> m" using True r(2) by simp
    moreover have "\<forall>(g, c) \<in> set (e # row). m' \<le> cellCost c"
      using r(2,3) by (cases e) auto
    moreover have "(m' = m \<and> f' = f) \<or> (\<exists>c. (f', c) \<in> set (e # row) \<and> cellCost c = m')"
      using r(4) by (cases e) auto
    ultimately show ?thesis by blast
  next
    case False
    from Cons.IH [of m f] obtain m' f' where
      r: "fold pickFinal row (Fin m, f) = (Fin m', f')"
         "m' \<le> m" "\<forall>(g, c) \<in> set row. m' \<le> cellCost c"
         "(m' = m \<and> f' = f) \<or> (\<exists>c. (f', c) \<in> set row \<and> cellCost c = m')"
      by blast
    have "fold pickFinal (e # row) (Fin m, f) = (Fin m', f')"
      using False r(1) by (simp add: pickFinal_def)
    moreover have "\<forall>(g, c) \<in> set (e # row). m' \<le> cellCost c"
      using False r(2,3) by (cases e) auto
    moreover have "(m' = m \<and> f' = f) \<or> (\<exists>c. (f', c) \<in> set (e # row) \<and> cellCost c = m')"
      using r(4) by auto
    ultimately show ?thesis using r(2) by blast
  qed
qed

lemma bestFinal_minimum:
  assumes "row \<noteq> []"
  shows "\<exists>f c. (f, c) \<in> set row \<and> bestFinal row = (Fin (cellCost c), f) \<and>
           (\<forall>(g, c') \<in> set row. cellCost c \<le> cellCost c')"
proof -
  from assms obtain e rest where row: "row = e # rest" by (cases row) auto
  from fold_pickFinal_min [of rest "cellCost (snd e)" "fst e"] obtain m' f' where
    r: "fold pickFinal rest (Fin (cellCost (snd e)), fst e) = (Fin m', f')"
       "m' \<le> cellCost (snd e)" "\<forall>(g, c) \<in> set rest. m' \<le> cellCost c"
       "(m' = cellCost (snd e) \<and> f' = fst e) \<or> (\<exists>c. (f', c) \<in> set rest \<and> cellCost c = m')"
    by blast
  have b: "bestFinal row = (Fin m', f')"
    using r(1) by (simp add: bestFinal_def row pickFinal_def)
  from r(4) obtain c where c: "(f', c) \<in> set row" "cellCost c = m'"
    by (cases e) (auto simp: row)
  have "\<forall>(g, c') \<in> set row. m' \<le> cellCost c'"
    using r(2,3) by (cases e) (auto simp: row)
  with b c show ?thesis by blast
qed

lemma backtrack_final:
  assumes "ns \<noteq> []"
  shows "fingering (backtrack dp ns h) ! (length ns - 1) = snd (bestFinal (dp ! (length ns - 1))) \<and>
         totalCost (backtrack dp ns h) = fst (bestFinal (dp ! (length ns - 1)))"
proof -
  from assms obtain i where n: "length ns = Suc i" by (cases ns) auto
  obtain c f where bf: "bestFinal (dp ! i) = (c, f)" by (cases "bestFinal (dp ! i)")
  obtain fs es ps where w: "walkBack dp ns h (Suc i) f = (fs, es, ps)"
    by (cases "walkBack dp ns h (Suc i) f")
  have "fs ! i = f" using walkBack_last [of dp ns h i f] w by simp
  with bf w n show ?thesis by (simp add: backtrack_def Let_def)
qed

lemma backtrack_over_empty_rows:
  assumes "\<And>i. j \<le> i \<Longrightarrow> i < length ns \<Longrightarrow> dp ! i = []" and "j < length ns"
  shows "totalCost (backtrack dp ns h) = Infinity \<and>
         (\<forall>i. j \<le> i \<and> i < length ns \<longrightarrow>
            fingering (backtrack dp ns h) ! i = 3 \<and> explanations (backtrack dp ns h) ! i = [])"
proof -
  let ?n = "length ns"
  have last: "dp ! (?n - 1) = []" using assms by simp
  then have bf: "bestFinal (dp ! (?n - 1)) = (Infinity, 3)" by (simp add: bestFinal_empty)
  obtain fs es ps where w: "walkBack dp ns h ?n 3 = (fs, es, ps)"
    by (cases "walkBack dp ns h ?n 3")
  obtain fs' es' ps' where w': "walkBack dp ns h j 3 = (fs', es', ps')"
    by (cases "walkBack dp ns h j 3")
  have bt: "backtrack dp ns h = \<lparr>fingering = fs, totalCost = Infinity, path = ps, explanations = es\<rparr>"
    using bf w by (simp add: backtrack_def Let_def)
  from walkBack_over_empty_rows [of j ?n dp ns h 3] assms w w'
  have split: "fs = fs' @ replicate (?n - j) 3" "es = es' @ replicate (?n - j) []"
    by simp_all
  from walkBack_length [OF w'] have len: "length fs' = j" "length es' = j" by simp_all
  have "fs ! i = 3 \<and> es ! i = []" if "j \<le> i" "i < ?n" for i
    using that split len by (simp add: nth_append)
  with bt show ?thesis by simp
qed

text \<open>
  C5. If at some note index \<open>j \<ge> 1\<close> of a hand every one of the 25 transitions into the
  note costs more than 300, the optimiser still returns a solution with one finger and one
  explanation per note. Backtracking takes, in the last row, the finger of a cell of
  least cumulative cost, and finger 3 with total cost \<^verbatim>\<open>Infinity\<close> when the row has no
  cell; here the rows from \<open>j\<close> on have no cell, so the total cost is \<^verbatim>\<open>Infinity\<close> and every
  note from index \<open>j\<close> on gets finger 3 and the empty explanation.
\<close>

theorem unreachable_rows_fall_back:
  assumes "1 \<le> j" and "j < length ns"
    and "\<forall>fromFinger \<in> set fingers. \<forall>toFinger \<in> set fingers.
      cost (computeTransitionCost level (ns ! (j - 1)) fromFinger (ns ! j) toFinger
              (getPatternContext ns j patterns) h (analyzeHandPositions ns h ! j)) > 300"
  shows "\<exists>sol. dpOptimization level ns patterns h = Inr sol \<and>
     length (fingering sol) = length ns \<and> length (explanations sol) = length ns \<and>
     fingering sol ! (length ns - 1)
       = snd (bestFinal (dpTable level ns patterns h (analyzeHandPositions ns h) (length ns - 1)
                           ! (length ns - 1))) \<and>
     totalCost sol
       = fst (bestFinal (dpTable level ns patterns h (analyzeHandPositions ns h) (length ns - 1)
                           ! (length ns - 1))) \<and>
     bestFinal [] = (Infinity, 3) \<and>
     (\<forall>row. row \<noteq> [] \<longrightarrow>
        (\<exists>f c. (f, c) \<in> set row \<and> bestFinal row = (Fin (cellCost c), f) \<and>
           (\<forall>(g, c') \<in> set row. cellCost c \<le> cellCost c'))) \<and>
     totalCost sol = Infinity \<and>
     (\<forall>i. j \<le> i \<and> i < length ns \<longrightarrow> fingering sol ! i = 3 \<and> explanations sol ! i = [])"
proof -
  let ?hps = "analyzeHandPositions ns h"
  let ?dp = "dpTable level ns patterns h ?hps (length ns - 1)"
  from assms(2) have ne: "ns \<noteq> []" by auto
  have sol: "dpOptimization level ns patterns h = Inr (backtrack ?dp ns h)"
    using ne by (simp add: dpOptimization_def Let_def)
  from assms(1) obtain j' where j: "j = Suc j'" by (cases j) auto
  have "?dp ! j = dpRow level ns patterns h ?hps (?dp ! j') j"
    using assms(2) unfolding j by (intro dpTable_step) simp
  also have "\<dots> = []"
    using assms(3) by (rule dpRow_all_pruned)
  finally have rowj: "?dp ! j = []" .
  have rows: "?dp ! i = []" if "j \<le> i" "i < length ns" for i
  proof (rule dpTable_empty_onwards [of level ns patterns h ?hps _ j])
    show "?dp ! j = []" by (rule rowj)
    show "j \<le> i" by (rule that(1))
    show "i \<le> length ns - 1" using that(2) by simp
  qed
  have fall: "totalCost (backtrack ?dp ns h) = Infinity \<and>
         (\<forall>i. j \<le> i \<and> i < length ns \<longrightarrow>
            fingering (backtrack ?dp ns h) ! i = 3 \<and> explanations (backtrack ?dp ns h) ! i = [])"
    using rows assms(2) by (intro backtrack_over_empty_rows) simp_all
  have min: "\<forall>row. row \<noteq> [] \<longrightarrow>
        (\<exists>f c. (f, c) \<in> set row \<and> bestFinal row = (Fin (cellCost c), f) \<and>
           (\<forall>(g, c') \<in> set row. cellCost c \<le> cellCost c'))"
    using bestFinal_minimum by blast
  show ?thesis
  proof (intro exI conjI)
    show "dpOptimization level ns patterns h = Inr (backtrack ?dp ns h)" by (rule sol)
    show "length (fingering (backtrack ?dp ns h)) = length ns"
      using backtrack_length [of ?dp ns h] by simp
    show "length (explanations (backtrack ?dp ns h)) = length ns"
      using backtrack_length [of ?dp ns h] by simp
    show "fingering (backtrack ?dp ns h) ! (length ns - 1) = snd (bestFinal (?dp ! (length ns - 1)))"
      using backtrack_final [OF ne, of ?dp h] by simp
    show "totalCost (backtrack ?dp ns h) = fst (bestFinal (?dp ! (length ns - 1)))"
      using backtrack_final [OF ne, of ?dp h] by simp
    show "bestFinal [] = (Infinity, 3)" by (rule bestFinal_empty)
    show "\<forall>row. row \<noteq> [] \<longrightarrow>
        (\<exists>f c. (f, c) \<in> set row \<and> bestFinal row = (Fin (cellCost c), f) \<and>
           (\<forall>(g, c') \<in> set row. cellCost c \<le> cellCost c'))" by (rule min)
    show "totalCost (backtrack ?dp ns h) = Infinity" using fall by simp
    show "\<forall>i. j \<le> i \<and> i < length ns \<longrightarrow>
       fingering (backtrack ?dp ns h) ! i = 3 \<and> explanations (backtrack ?dp ns h) ! i = []"
      using fall by simp
  qed
qed

lemma farNotes_pruned:
  "\<forall>fromFinger \<in> set fingers. \<forall>toFinger \<in> set fingers.
      cost (computeTransitionCost Intermediate (farNotes ! (1 - 1)) fromFinger (farNotes ! 1) toFinger
              (getPatternContext farNotes 1 []) RH (analyzeHandPositions farNotes RH ! 1)) > 300"
  by code_simp

theorem unreachable_rows_fall_back_witness:
  "\<exists>sol. dpOptimization Intermediate farNotes [] RH = Inr sol \<and>
     length (fingering sol) = 2 \<and> totalCost sol = Infinity \<and>
     fingering sol ! 1 = 3 \<and> explanations sol ! 1 = []"
proof -
  have a: "(1::nat) \<le> 1" by simp
  have b: "1 < length farNotes" by (simp add: farNotes_def)
  from unreachable_rows_fall_back [OF a b farNotes_pruned]
  obtain sol where "dpOptimization Intermediate farNotes [] RH = Inr sol"
    "length (fingering sol) = length farNotes" "totalCost sol = Infinity"
    "\<forall>i. 1 \<le> i \<and> i < length farNotes \<longrightarrow> fingering sol ! i = 3 \<and> explanations sol ! i = []"
    by blast
  with b show ?thesis by (auto simp: farNotes_def)
qed

section \<open>A plan without a finite cost\<close>

text \<open>
  C10. There are non-empty inputs for which \<^verbatim>\<open>planFingering\<close> returns a finger for every
  note but the total cost \<^verbatim>\<open>Infinity\<close>: two right-hand notes 100 semitones apart. At every
  difficulty level the row of the second note has no cell, although the first row has all
  five, so each of the 25 transitions between them was pruned; both notes get the default
  finger 3.
\<close>

theorem infinite_total_cost:
  "farNotes \<noteq> [] \<and>
   dpTable level farNotes [] RH (analyzeHandPositions farNotes RH) 1 ! 1 = [] \<and>
   planFingering level farNotes []
     = Inr \<lparr>fingering = [3, 3], totalCost = Infinity,
            path = [\<lparr>noteIndex = 0, finger = 3, stateHand = RH, handPosition = 0, stateCost = 30,
                      stateReasons = [''2 fingers from expected'']\<rparr>,
                    \<lparr>noteIndex = 1, finger = 3, stateHand = RH, handPosition = 100, stateCost = 0,
                      stateReasons = []\<rparr>],
            explanations = [''2 fingers from expected'', []]\<rparr>"
proof (cases level)
  case Beginner
  show ?thesis unfolding Beginner by code_simp
next
  case Intermediate
  show ?thesis unfolding Intermediate by code_simp
next
  case Advanced
  show ?thesis unfolding Advanced by code_simp
qed

theorem infinite_total_cost_witness:
  "farNotes \<noteq> [] \<and>
   (\<exists>sol. planFingering Intermediate farNotes [] = Inr sol \<and>
      fingering sol = [3, 3] \<and> totalCost sol = Infinity)"
  using infinite_total_cost [of Intermediate] by simp

section \<open>The C major scale\<close>

lemma walkBack_root:
  assumes "map_option parent (map_of (dp ! 0) cur) = Some None" and "k = Suc 0"
  shows "fst (walkBack dp ns h k cur) = [cur]"
  using assms by (auto simp: Let_def split: option.splits)

lemma walkBack_parent:
  assumes "map_option parent (map_of (dp ! i) cur) = Some (Some (j, prevFinger))"
    and "fst (walkBack dp ns h i prevFinger) = fs" and "k = Suc i" and "res = fs @ [cur]"
  shows "fst (walkBack dp ns h k cur) = res"
  using assms by (auto simp: Let_def split: option.splits prod.splits)

lemma dpTable_from_rows:
  assumes "length T = Suc k" and "T ! 0 = initialRow ns h hps"
    and "\<And>i. i < k \<Longrightarrow> dpRow level ns patterns h hps (T ! i) (Suc i) = T ! Suc i"
  shows "dpTable level ns patterns h hps k = T"
proof (rule nth_equalityI)
  show "length (dpTable level ns patterns h hps k) = length T"
    by (simp add: dpTable_length assms(1))
next
  fix i assume "i < length (dpTable level ns patterns h hps k)"
  then have "i \<le> k" by (simp add: dpTable_length)
  then show "dpTable level ns patterns h hps k ! i = T ! i"
  proof (induction i)
    case 0
    then show ?case by (simp add: dpTable_first_row assms(2))
  next
    case (Suc i)
    then have "dpTable level ns patterns h hps k ! i = T ! i" "i < k" by simp_all
    with Suc.prems show ?case by (simp add: dpTable_step assms(3))
  qed
qed

lemma cMajor_parents:
  "map_option parent (map_of (cMajorTable ! 0) 1) = Some None"
  "map_option parent (map_of (cMajorTable ! 1) 2) = Some (Some (0, 1))"
  "map_option parent (map_of (cMajorTable ! 2) 3) = Some (Some (1, 2))"
  "map_option parent (map_of (cMajorTable ! 3) 1) = Some (Some (2, 3))"
  "map_option parent (map_of (cMajorTable ! 4) 2) = Some (Some (3, 1))"
  "map_option parent (map_of (cMajorTable ! 5) 3) = Some (Some (4, 2))"
  "map_option parent (map_of (cMajorTable ! 6) 1) = Some (Some (5, 3))"
  "map_option parent (map_of (cMajorTable ! 7) 2) = Some (Some (6, 1))"
  "map_option parent (map_of (cMajorTable ! 8) 3) = Some (Some (7, 2))"
  "map_option parent (map_of (cMajorTable ! 9) 1) = Some (Some (8, 3))"
  by code_simp+

lemma cMajor_walkBack:
  "fst (walkBack cMajorTable cMajorScale RH 10 1) = [1, 2, 3, 1, 2, 3, 1, 2, 3, 1]"
proof -
  have w1: "fst (walkBack cMajorTable cMajorScale RH 1 1) = [1]"
    by (rule walkBack_root [OF cMajor_parents(1)]) simp
  have w2: "fst (walkBack cMajorTable cMajorScale RH 2 2) = [1, 2]"
    by (rule walkBack_parent [OF cMajor_parents(2) w1]) simp_all
  have w3: "fst (walkBack cMajorTable cMajorScale RH 3 3) = [1, 2, 3]"
    by (rule walkBack_parent [OF cMajor_parents(3) w2]) simp_all
  have w4: "fst (walkBack cMajorTable cMajorScale RH 4 1) = [1, 2, 3, 1]"
    by (rule walkBack_parent [OF cMajor_parents(4) w3]) simp_all
  have w5: "fst (walkBack cMajorTable cMajorScale RH 5 2) = [1, 2, 3, 1, 2]"
    by (rule walkBack_parent [OF cMajor_parents(5) w4]) simp_all
  have w6: "fst (walkBack cMajorTable cMajorScale RH 6 3) = [1, 2, 3, 1, 2, 3]"
    by (rule walkBack_parent [OF cMajor_parents(6) w5]) simp_all
  have w7: "fst (walkBack cMajorTable cMajorScale RH 7 1) = [1, 2, 3, 1, 2, 3, 1]"
    by (rule walkBack_parent [OF cMajor_parents(7) w6]) simp_all
  have w8: "fst (walkBack cMajorTable cMajorScale RH 8 2) = [1, 2, 3, 1, 2, 3, 1, 2]"
    by (rule walkBack_parent [OF cMajor_parents(8) w7]) simp_all
  have w9: "fst (walkBack cMajorTable cMajorScale RH 9 3) = [1, 2, 3, 1, 2, 3, 1, 2, 3]"
    by (rule walkBack_parent [OF cMajor_parents(9) w8]) simp_all
  have w10: "fst (walkBack cMajorTable cMajorScale RH 10 1) = [1, 2, 3, 1, 2, 3, 1, 2, 3, 1]"
    by (rule walkBack_parent [OF cMajor_parents(10) w9]) simp_all
  show ?thesis by (rule w10)
qed

lemma cMajor_bestFinal: "bestFinal (cMajorTable ! 9) = (Fin (- 300), 1)"
  by code_simp

lemma cMajor_thumbs: "fingeringCost Intermediate cMajorScale [] RH (replicate 10 1) = 510"
  by code_simp

lemma cMajor_found: "fingeringCost Intermediate cMajorScale [] RH [1, 2, 3, 1, 2, 3, 1, 2, 3, 1] = - 300"
  by code_simp

lemma cMajor_merge:
  "fingering rhSolution = [1, 2, 3, 1, 2, 3, 1, 2, 3, 1] \<Longrightarrow>
   fst (mergeHands cMajorScale rhSolution lhSolution 0 0) = [1, 2, 3, 1, 2, 3, 1, 2, 3, 1]"
  by (simp add: cMajorScale_def rhNote_def fingerOr3_def split: prod.splits)

lemma cMajor_rows:
  "dpRow Intermediate cMajorScale [] RH (analyzeHandPositions cMajorScale RH) (cMajorTable ! 0) (Suc 0)
     = cMajorTable ! Suc 0"
  "dpRow Intermediate cMajorScale [] RH (analyzeHandPositions cMajorScale RH) (cMajorTable ! 1) (Suc 1)
     = cMajorTable ! Suc 1"
  "dpRow Intermediate cMajorScale [] RH (analyzeHandPositions cMajorScale RH) (cMajorTable ! 2) (Suc 2)
     = cMajorTable ! Suc 2"
  "dpRow Intermediate cMajorScale [] RH (analyzeHandPositions cMajorScale RH) (cMajorTable ! 3) (Suc 3)
     = cMajorTable ! Suc 3"
  "dpRow Intermediate cMajorScale [] RH (analyzeHandPositions cMajorScale RH) (cMajorTable ! 4) (Suc 4)
     = cMajorTable ! Suc 4"
  "dpRow Intermediate cMajorScale [] RH (analyzeHandPositions cMajorScale RH) (cMajorTable ! 5) (Suc 5)
     = cMajorTable ! Suc 5"
  "dpRow Intermediate cMajorScale [] RH (analyzeHandPositions cMajorScale RH) (cMajorTable ! 6) (Suc 6)
     = cMajorTable ! Suc 6"
  "dpRow Intermediate cMajorScale [] RH (analyzeHandPositions cMajorScale RH) (cMajorTable ! 7) (Suc 7)
     = cMajorTable ! Suc 7"
  "dpRow Intermediate cMajorScale [] RH (analyzeHandPositions cMajorScale RH) (cMajorTable ! 8) (Suc 8)
     = cMajorTable ! Suc 8"
  by code_simp+

lemma cMajor_row0:
  "cMajorTable ! 0 = initialRow cMajorScale RH (analyzeHandPositions cMajorScale RH)"
  by code_simp

lemma cMajor_table:
  "dpTable Intermediate cMajorScale [] RH (analyzeHandPositions cMajorScale RH) 9 = cMajorTable"
proof (rule dpTable_from_rows)
  show "length cMajorTable = Suc 9" by (simp add: cMajorTable_def)
  show "cMajorTable ! 0 = initialRow cMajorScale RH (analyzeHandPositions cMajorScale RH)"
    by (rule cMajor_row0)
next
  fix i :: nat assume "i < 9"
  then have "i = 0 \<or> i = 1 \<or> i = 2 \<or> i = 3 \<or> i = 4 \<or> i = 5 \<or> i = 6 \<or> i = 7 \<or> i = 8"
    by arith
  then show "dpRow Intermediate cMajorScale [] RH (analyzeHandPositions cMajorScale RH)
               (cMajorTable ! i) (Suc i) = cMajorTable ! Suc i"
    by (elim disjE) (simp_all only: cMajor_rows)
qed

lemma backtrack_parts:
  "bestFinal (dp ! (length ns - 1)) = (c, f) \<Longrightarrow>
   fingering (backtrack dp ns h) = fst (walkBack dp ns h (length ns) f) \<and>
   totalCost (backtrack dp ns h) = c"
  by (simp add: backtrack_def Let_def split: prod.splits)

lemma cMajor_hand:
  "\<exists>sol. planHandFingering Intermediate cMajorScale [] RH = Inr sol \<and>
     fingering sol = [1, 2, 3, 1, 2, 3, 1, 2, 3, 1] \<and> totalCost sol = Fin (- 300)"
proof -
  have n: "length cMajorScale = 10" by (simp add: cMajorScale_def)
  then have ne: "cMajorScale \<noteq> []" by auto
  have "dpOptimization Intermediate cMajorScale [] RH = Inr (backtrack cMajorTable cMajorScale RH)"
    using ne cMajor_table by (simp add: dpOptimization_def Let_def n)
  then have p: "planHandFingering Intermediate cMajorScale [] RH
                  = Inr (backtrack cMajorTable cMajorScale RH)"
    by (simp add: planHandFingering_def n)
  have "bestFinal (cMajorTable ! (length cMajorScale - 1)) = (Fin (- 300), 1)"
    using cMajor_bestFinal by (simp add: n)
  from backtrack_parts [OF this, of RH] cMajor_walkBack p show ?thesis
    by (simp add: n)
qed

text \<open>
  C2. The ten right-hand notes of the ascending C major scale from pitch 60, without
  pattern segments, at the default difficulty level: the sequence is classified as a
  scale and every position is flagged \<^verbatim>\<open>isScale\<close>; the plan returned is
  1, 2, 3, 1, 2, 3, 1, 2, 3, 1 with total cost \<open>-300\<close>, which is less than the cost 510 of
  playing every note with the thumb. The plan does not continue 4, 5 after the second 3.
\<close>

theorem c_major_scale_plan:
  "detectScalePattern cMajorScale \<and>
   analyzeHandPositions cMajorScale RH
     = replicate 10 \<lparr>anchorPitch = 60, inPosition = False, isScale = True\<rparr> \<and>
   (\<exists>sol. planFingering Intermediate cMajorScale [] = Inr sol \<and>
      fingering sol = [1, 2, 3, 1, 2, 3, 1, 2, 3, 1] \<and> totalCost sol = Fin (- 300)) \<and>
   fingeringCost Intermediate cMajorScale [] RH [1, 2, 3, 1, 2, 3, 1, 2, 3, 1] = - 300 \<and>
   fingeringCost Intermediate cMajorScale [] RH (replicate 10 1) = 510"
proof (intro conjI)
  show "detectScalePattern cMajorScale" by (rule cMajorScale_detected)
  show "analyzeHandPositions cMajorScale RH
     = replicate 10 \<lparr>anchorPitch = 60, inPosition = False, isScale = True\<rparr>"
    using scale_positions [OF cMajorScale_detected, of RH]
    by (simp add: cMajorScale_def rhNote_def eval_nat_numeral)
  show "fingeringCost Intermediate cMajorScale [] RH [1, 2, 3, 1, 2, 3, 1, 2, 3, 1] = - 300"
    by (rule cMajor_found)
  show "fingeringCost Intermediate cMajorScale [] RH (replicate 10 1) = 510"
    by (rule cMajor_thumbs)
  show "\<exists>sol. planFingering Intermediate cMajorScale [] = Inr sol \<and>
      fingering sol = [1, 2, 3, 1, 2, 3, 1, 2, 3, 1] \<and> totalCost sol = Fin (- 300)"
  proof -
    from cMajor_hand obtain rhSol where
      rh: "planHandFingering Intermediate cMajorScale [] RH = Inr rhSol"
        "fingering rhSol = [1, 2, 3, 1, 2, 3, 1, 2, 3, 1]" "totalCost rhSol = Fin (- 300)"
      by blast
    have f1: "filter (\<lambda>n. hand n = RH) cMajorScale = cMajorScale"
      and f2: "filter (\<lambda>n. hand n = LH) cMajorScale = []"
      and ne: "cMajorScale \<noteq> []"
      by (simp_all add: cMajorScale_def rhNote_def)
    obtain fs es where m: "mergeHands cMajorScale rhSol emptySolution 0 0 = (fs, es)"
      by (cases "mergeHands cMajorScale rhSol emptySolution 0 0")
    have fs: "fs = [1, 2, 3, 1, 2, 3, 1, 2, 3, 1]"
      using cMajor_merge [OF rh(2), of emptySolution] m by simp
    have "planFingering Intermediate cMajorScale []
        = Inr \<lparr>fingering = fs, totalCost = costPlus (totalCost rhSol) (totalCost emptySolution),
               path = path rhSol @ path emptySolution, explanations = es\<rparr>"
      using ne f1 f2 rh(1) m by (simp add: planFingering_def planHandFingering_def Let_def)
    with fs rh(3) show ?thesis by (simp add: emptySolution_def)
  qed
qed

text \<open>On the way through fingers 4 and 5 the scale has to leave finger 5 by a transition
  that is not rewarded.\<close>

lemma cMajor_through_five:
  "fingeringCost Intermediate cMajorScale [] RH [1, 2, 3, 1, 2, 3, 4, 5, 1, 2] = - 250"
  by code_simp

section \<open>The index of a note in a long hand\<close>

lemma costPlus_Infinity: "costPlus c Infinity = Infinity"
  by (cases c) simp_all

lemma stitch_acc_infinite:
  "totalCost acc = Infinity \<Longrightarrow> totalCost (stitch i sols acc) = Infinity"
  by (induction sols arbitrary: i acc) simp_all

lemma stitch_infinite:
  "s \<in> set sols \<Longrightarrow> totalCost s = Infinity \<Longrightarrow> totalCost (stitch i sols acc) = Infinity"
proof (induction sols arbitrary: i acc)
  case Nil
  then show ?case by simp
next
  case (Cons a sols)
  show ?case
  proof (cases "s = a")
    case True
    with Cons.prems show ?thesis by (simp add: stitch_acc_infinite costPlus_Infinity)
  next
    case False
    with Cons.prems have "s \<in> set sols" by simp
    from Cons.IH [OF this Cons.prems(2)] show ?thesis by simp
  qed
qed

lemma mergeHands_right_hand_only:
  "\<forall>n \<in> set ns. hand n = RH \<Longrightarrow>
   mergeHands ns rhSolution lhSolution rhIdx lhIdx
     = (map (\<lambda>j. fingerOr3 (fingering rhSolution) (rhIdx + j)) [0 ..< length ns],
        map (\<lambda>j. explanationOrEmpty (explanations rhSolution) (rhIdx + j)) [0 ..< length ns])"
  by (induction ns arbitrary: rhIdx) (simp_all add: map_upt_Suc del: upt_Suc)

lemma pruned_row_solution:
  assumes "1 \<le> j" and "j < length ns"
    and "\<forall>fromFinger \<in> set fingers. \<forall>toFinger \<in> set fingers.
      cost (computeTransitionCost level (ns ! (j - 1)) fromFinger (ns ! j) toFinger
              (getPatternContext ns j patterns) h (analyzeHandPositions ns h ! j)) > 300"
  shows "\<exists>sol. dpOptimization level ns patterns h = Inr sol \<and> totalCost sol = Infinity \<and>
     fingering sol ! j = 3 \<and> explanations sol ! j = []"
proof -
  let ?hps = "analyzeHandPositions ns h"
  let ?dp = "dpTable level ns patterns h ?hps (length ns - 1)"
  from assms(2) have ne: "ns \<noteq> []" by auto
  have sol: "dpOptimization level ns patterns h = Inr (backtrack ?dp ns h)"
    using ne by (simp add: dpOptimization_def Let_def)
  from assms(1) obtain j' where j: "j = Suc j'" by (cases j) auto
  have "?dp ! j = dpRow level ns patterns h ?hps (?dp ! j') j"
    using assms(2) unfolding j by (intro dpTable_step) simp
  also have "\<dots> = []"
    using assms(3) by (rule dpRow_all_pruned)
  finally have rowj: "?dp ! j = []" .
  have rows: "?dp ! i = []" if "j \<le> i" "i < length ns" for i
  proof (rule dpTable_empty_onwards [of level ns patterns h ?hps _ j])
    show "?dp ! j = []" by (rule rowj)
    show "j \<le> i" by (rule that(1))
    show "i \<le> length ns - 1" using that(2) by simp
  qed
  have "totalCost (backtrack ?dp ns h) = Infinity \<and>
         (\<forall>i. j \<le> i \<and> i < length ns \<longrightarrow>
            fingering (backtrack ?dp ns h) ! i = 3 \<and> explanations (backtrack ?dp ns h) ! i = [])"
    using rows assms(2) by (intro backtrack_over_empty_rows) simp_all
  with sol assms(2) show ?thesis by auto
qed

lemma leapHand_chunks:
  "chunkNotes leapHand 0 = [take 32 leapHand, leapWindow, drop 56 leapHand]"
  by code_simp

lemma leapWindow_facts:
  "length leapWindow = 32" "leapWindow ! 12 = leapHand ! 40"
  "pitch (leapWindow ! 11) = 36" "pitch (leapWindow ! 12) = 74"
  "getPatternContext leapWindow 12 segment12 = SCALE"
  "analyzeHandPositions leapWindow RH ! 12 = \<lparr>anchorPitch = 67, inPosition = True, isScale = False\<rparr>"
  by code_simp+

lemma leap_scale_costs:
  "\<forall>fromFinger \<in> set fingers. \<forall>toFinger \<in> set fingers.
     cost (computeScaleTransitionCost fromFinger toFinger True RH 38) > 300"
  by code_simp

lemma leapWindow_pruned:
  "\<forall>fromFinger \<in> set fingers. \<forall>toFinger \<in> set fingers.
      cost (computeTransitionCost level (leapWindow ! (12 - 1)) fromFinger (leapWindow ! 12) toFinger
              (getPatternContext leapWindow 12 segment12) RH
              (analyzeHandPositions leapWindow RH ! 12)) > 300"
  using leap_scale_costs by (simp add: leapWindow_facts(3,4,5) scale_mode_delegates)

lemma leapWindow_solution:
  "\<exists>s. dpOptimization level leapWindow segment12 RH = Inr s \<and> totalCost s = Infinity \<and>
     length (fingering s) = 32 \<and> length (explanations s) = 32 \<and>
     fingering s ! 12 = 3 \<and> explanations s ! 12 = []"
proof -
  have a: "(1::nat) \<le> 12" by simp
  have b: "12 < length leapWindow" by (simp add: leapWindow_facts)
  from pruned_row_solution [OF a b leapWindow_pruned] obtain s where
    s: "dpOptimization level leapWindow segment12 RH = Inr s" "totalCost s = Infinity"
       "fingering s ! 12 = 3" "explanations s ! 12 = []"
    by blast
  have "leapWindow \<noteq> []" using b by auto
  from dpOptimization_length [OF this, of level segment12 RH] s(1)
  have "length (fingering s) = 32" "length (explanations s) = 32"
    by (simp_all add: leapWindow_facts)
  with s show ?thesis by blast
qed

lemma leapHand_hand_solution:
  "\<exists>sol. planHandFingering level leapHand segment12 RH = Inr sol \<and> totalCost sol = Infinity \<and>
     length (fingering sol) = 65 \<and> length (explanations sol) = 65 \<and>
     fingering sol ! 40 = 3 \<and> explanations sol ! 40 = []"
proof -
  have n: "length leapHand = 65" by (simp add: leapHand_def)
  have ne0: "take 32 leapHand \<noteq> []" and ne2: "drop 56 leapHand \<noteq> []"
    by (simp_all add: leapHand_def)
  from dpOptimization_length [OF ne0, of level segment12 RH] obtain s0 where
    s0: "dpOptimization level (take 32 leapHand) segment12 RH = Inr s0"
        "length (fingering s0) = 32" "length (explanations s0) = 32"
    by (auto simp: n)
  from leapWindow_solution [of level] obtain s1 where
    s1: "dpOptimization level leapWindow segment12 RH = Inr s1" "totalCost s1 = Infinity"
        "length (fingering s1) = 32" "length (explanations s1) = 32"
        "fingering s1 ! 12 = 3" "explanations s1 ! 12 = []"
    by blast
  from dpOptimization_length [OF ne2, of level segment12 RH] obtain s2 where
    s2: "dpOptimization level (drop 56 leapHand) segment12 RH = Inr s2"
    by blast
  let ?sol = "stitch 0 [s0, s1, s2] emptySolution"
  have c: "chunkedOptimization level leapHand segment12 RH = Inr ?sol"
    by (simp add: chunkedOptimization_def leapHand_chunks s0 s1 s2 del: stitch.simps)
  have p: "planHandFingering level leapHand segment12 RH = Inr ?sol"
    using c by (simp add: planHandFingering_def n del: stitch.simps)
  have inf: "totalCost ?sol = Infinity"
    by (rule stitch_infinite [of s1]) (simp_all add: s1)
  have f: "fingering ?sol = fingering s0 @ drop 4 (fingering s1) @ drop 4 (fingering s2)"
    and e: "explanations ?sol = explanations s0 @ drop 4 (explanations s1) @ drop 4 (explanations s2)"
    using stitch_first [of s0 "[s1, s2]"] by (simp_all add: overlapSize_def del: stitch.simps)
  have "fingering ?sol ! 40 = 3" "explanations ?sol ! 40 = []"
    using s0 s1 by (simp_all add: f e nth_append del: stitch.simps)
  moreover from planHandFingering_length [of level leapHand segment12 RH] p
  have "length (fingering ?sol) = 65" "length (explanations ?sol) = 65"
    by (simp_all add: n del: stitch.simps)
  ultimately show ?thesis using p inf by blast
qed

text \<open>
  C7. A right hand of 65 notes, none in a measure that a segment names: 40 notes at pitch
  36, one at 74, 24 at 67. The only pattern segment is SCALE from 12 to 12. The note at 74
  has index 40 in the hand's sequence, which the segment does not contain, so its pattern
  context by first match is UNKNOWN; with that context the transition from finger 1 to
  finger 5 into it costs 299 and is kept. The hand is planned in windows, and the note is
  number 12 of the second window: the context computed for it is SCALE, every transition
  into it costs more than 300, and the plan returned has total cost \<^verbatim>\<open>Infinity\<close> and the
  default finger 3 with an empty explanation on that note.
\<close>

theorem window_local_pattern_index:
  "length leapHand = 65 \<and>
   chunkNotes leapHand 0 = [take 32 leapHand, leapWindow, drop 56 leapHand] \<and>
   leapWindow ! 12 = leapHand ! 40 \<and>
   firstMatchContext (leapHand ! 40) 40 segment12 = UNKNOWN \<and>
   getPatternContext leapHand 40 segment12 = UNKNOWN \<and>
   getPatternContext leapWindow 12 segment12 = SCALE \<and>
   cost (computeTransitionCost Intermediate (leapHand ! 39) 1 (leapHand ! 40) 5 UNKNOWN RH
           (analyzeHandPositions leapWindow RH ! 12)) = 299 \<and>
   (\<exists>s. dpOptimization level leapWindow segment12 RH = Inr s \<and> totalCost s = Infinity \<and>
      fingering s ! 12 = 3 \<and> explanations s ! 12 = []) \<and>
   (\<exists>sol. planFingering level leapHand segment12 = Inr sol \<and> totalCost sol = Infinity \<and>
      length (fingering sol) = 65 \<and> fingering sol ! 40 = 3 \<and> explanations sol ! 40 = [])"
proof (intro conjI)
  show "length leapHand = 65" by (simp add: leapHand_def)
  show "chunkNotes leapHand 0 = [take 32 leapHand, leapWindow, drop 56 leapHand]"
    by (rule leapHand_chunks)
  show "leapWindow ! 12 = leapHand ! 40" by (rule leapWindow_facts)
  show "firstMatchContext (leapHand ! 40) 40 segment12 = UNKNOWN" by code_simp
  show "getPatternContext leapHand 40 segment12 = UNKNOWN" by code_simp
  show "getPatternContext leapWindow 12 segment12 = SCALE" by (rule leapWindow_facts)
  show "cost (computeTransitionCost Intermediate (leapHand ! 39) 1 (leapHand ! 40) 5 UNKNOWN RH
           (analyzeHandPositions leapWindow RH ! 12)) = 299"
    by code_simp
  show "\<exists>s. dpOptimization level leapWindow segment12 RH = Inr s \<and> totalCost s = Infinity \<and>
      fingering s ! 12 = 3 \<and> explanations s ! 12 = []"
    using leapWindow_solution [of level] by blast
  show "\<exists>sol. planFingering level leapHand segment12 = Inr sol \<and> totalCost sol = Infinity \<and>
      length (fingering sol) = 65 \<and> fingering sol ! 40 = 3 \<and> explanations sol ! 40 = []"
  proof -
    from leapHand_hand_solution [of level] obtain rhSol where
      rh: "planHandFingering level leapHand segment12 RH = Inr rhSol" "totalCost rhSol = Infinity"
          "length (fingering rhSol) = 65" "length (explanations rhSol) = 65"
          "fingering rhSol ! 40 = 3" "explanations rhSol ! 40 = []"
      by blast
    have all: "\<forall>n \<in> set leapHand. hand n = RH" by (auto simp: leapHand_def)
    then have f1: "filter (\<lambda>n. hand n = RH) leapHand = leapHand"
      and f2: "filter (\<lambda>n. hand n = LH) leapHand = []"
      by (simp_all add: filter_empty_conv)
    have n: "length leapHand = 65" by (simp add: leapHand_def)
    then have ne: "leapHand \<noteq> []" by auto
    let ?fs = "map (\<lambda>j. fingerOr3 (fingering rhSol) (0 + j)) [0 ..< length leapHand]"
    let ?es = "map (\<lambda>j. explanationOrEmpty (explanations rhSol) (0 + j)) [0 ..< length leapHand]"
    have m: "mergeHands leapHand rhSol emptySolution 0 0 = (?fs, ?es)"
      using all by (rule mergeHands_right_hand_only)
    have "planFingering level leapHand segment12
        = Inr \<lparr>fingering = ?fs, totalCost = costPlus (totalCost rhSol) (totalCost emptySolution),
               path = path rhSol @ path emptySolution, explanations = ?es\<rparr>"
      using ne f1 f2 rh(1) m by (simp add: planFingering_def planHandFingering_def Let_def)
    moreover have "?fs ! 40 = 3" "?es ! 40 = []" "length ?fs = 65"
      using rh by (simp_all add: n fingerOr3_def explanationOrEmpty_def)
    ultimately show ?thesis using rh(2) by simp
  qed
qed

end
